theory Spec2Isabelle
  imports Complex_Main
begin

section \<open>Explicit MPM substep of week12\_taichi\_mpm\_2d.py\<close>

text \<open>
  The Taichi program stores every quantity in 32-bit floating point.  The embedding below
  reads every \<open>float\<close> as a real number and every \<open>int\<close> as an unbounded integer, so that
  all statements are about the exact arithmetic of the formulas in the source.  The program
  rounds \<open>x[p] * inv_dx - 0.5\<close> to a float before it converts it to int; what is said about
  the bounds of the grid accesses is therefore said of the converted value, whatever it is,
  and not of the position.
\<close>

subsection \<open>Vectors and matrices (ti.Vector, ti.Matrix)\<close>

datatype vec3 = Vec3 (vx: real) (vy: real) (vz: real)

datatype ivec3 = IVec3 (ix: int) (iy: int) (iz: int)

datatype mat3 = Mat3 (row0: vec3) (row1: vec3) (row2: vec3)

instantiation vec3 :: real_vector
begin

definition zero_vec3 :: vec3 where
  "zero_vec3 = Vec3 0 0 0"

definition plus_vec3 :: "vec3 \<Rightarrow> vec3 \<Rightarrow> vec3" where
  "plus_vec3 a b = Vec3 (vx a + vx b) (vy a + vy b) (vz a + vz b)"

definition minus_vec3 :: "vec3 \<Rightarrow> vec3 \<Rightarrow> vec3" where
  "minus_vec3 a b = Vec3 (vx a - vx b) (vy a - vy b) (vz a - vz b)"

definition uminus_vec3 :: "vec3 \<Rightarrow> vec3" where
  "uminus_vec3 a = Vec3 (- vx a) (- vy a) (- vz a)"

definition scaleR_vec3 :: "real \<Rightarrow> vec3 \<Rightarrow> vec3" where
  "scaleR_vec3 c a = Vec3 (c * vx a) (c * vy a) (c * vz a)"

instance
  by standard
    (simp_all add: zero_vec3_def plus_vec3_def minus_vec3_def uminus_vec3_def
      scaleR_vec3_def algebra_simps)

end

instantiation mat3 :: real_vector
begin

definition zero_mat3 :: mat3 where
  "zero_mat3 = Mat3 0 0 0"

definition plus_mat3 :: "mat3 \<Rightarrow> mat3 \<Rightarrow> mat3" where
  "plus_mat3 a b = Mat3 (row0 a + row0 b) (row1 a + row1 b) (row2 a + row2 b)"

definition minus_mat3 :: "mat3 \<Rightarrow> mat3 \<Rightarrow> mat3" where
  "minus_mat3 a b = Mat3 (row0 a - row0 b) (row1 a - row1 b) (row2 a - row2 b)"

definition uminus_mat3 :: "mat3 \<Rightarrow> mat3" where
  "uminus_mat3 a = Mat3 (- row0 a) (- row1 a) (- row2 a)"

definition scaleR_mat3 :: "real \<Rightarrow> mat3 \<Rightarrow> mat3" where
  "scaleR_mat3 c a = Mat3 (c *\<^sub>R row0 a) (c *\<^sub>R row1 a) (c *\<^sub>R row2 a)"

instance
  by standard
    (simp_all add: zero_mat3_def plus_mat3_def minus_mat3_def uminus_mat3_def
      scaleR_mat3_def algebra_simps)

end

instantiation ivec3 :: plus
begin

definition plus_ivec3 :: "ivec3 \<Rightarrow> ivec3 \<Rightarrow> ivec3" where
  "plus_ivec3 a b = IVec3 (ix a + ix b) (iy a + iy b) (iz a + iz b)"

instance ..

end

text \<open>Component access \<open>a[d]\<close> and \<open>M[r, c]\<close> for the static indices 0, 1, 2.\<close>

definition vget :: "vec3 \<Rightarrow> nat \<Rightarrow> real" where
  "vget a d = (if d = 0 then vx a else if d = 1 then vy a else vz a)"

definition vset :: "vec3 \<Rightarrow> nat \<Rightarrow> real \<Rightarrow> vec3" where
  "vset a d r =
     (if d = 0 then Vec3 r (vy a) (vz a)
      else if d = 1 then Vec3 (vx a) r (vz a)
      else Vec3 (vx a) (vy a) r)"

definition mrow :: "mat3 \<Rightarrow> nat \<Rightarrow> vec3" where
  "mrow M r = (if r = 0 then row0 M else if r = 1 then row1 M else row2 M)"

definition mget :: "mat3 \<Rightarrow> nat \<Rightarrow> nat \<Rightarrow> real" where
  "mget M r c = vget (mrow M r) c"

definition mset :: "mat3 \<Rightarrow> nat \<Rightarrow> nat \<Rightarrow> real \<Rightarrow> mat3" where
  "mset M r c a =
     (if r = 0 then Mat3 (vset (row0 M) c a) (row1 M) (row2 M)
      else if r = 1 then Mat3 (row0 M) (vset (row1 M) c a) (row2 M)
      else Mat3 (row0 M) (row1 M) (vset (row2 M) c a))"

text \<open>A scalar function applied to every component (Taichi broadcasts scalars).\<close>

definition vmap :: "(real \<Rightarrow> real) \<Rightarrow> vec3 \<Rightarrow> vec3" where
  "vmap f a = Vec3 (f (vx a)) (f (vy a)) (f (vz a))"

definition dot :: "vec3 \<Rightarrow> vec3 \<Rightarrow> real" where
  "dot a b = vx a * vx b + vy a * vy b + vz a * vz b"

definition mcol :: "mat3 \<Rightarrow> nat \<Rightarrow> vec3" where
  "mcol M c = Vec3 (vget (row0 M) c) (vget (row1 M) c) (vget (row2 M) c)"

text \<open>\<open>M.transpose()\<close>, \<open>M @ a\<close>, \<open>M @ N\<close>, \<open>a.outer_product(b)\<close>,
  \<open>ti.Matrix.identity(float, 3)\<close>.\<close>

definition transpose_m :: "mat3 \<Rightarrow> mat3" where
  "transpose_m M = Mat3 (mcol M 0) (mcol M 1) (mcol M 2)"

definition mat_vec :: "mat3 \<Rightarrow> vec3 \<Rightarrow> vec3" where
  "mat_vec M a = Vec3 (dot (row0 M) a) (dot (row1 M) a) (dot (row2 M) a)"

definition matmul :: "mat3 \<Rightarrow> mat3 \<Rightarrow> mat3" where
  "matmul M N =
     Mat3 (Vec3 (dot (row0 M) (mcol N 0)) (dot (row0 M) (mcol N 1)) (dot (row0 M) (mcol N 2)))
          (Vec3 (dot (row1 M) (mcol N 0)) (dot (row1 M) (mcol N 1)) (dot (row1 M) (mcol N 2)))
          (Vec3 (dot (row2 M) (mcol N 0)) (dot (row2 M) (mcol N 1)) (dot (row2 M) (mcol N 2)))"

definition outer_product :: "vec3 \<Rightarrow> vec3 \<Rightarrow> mat3" where
  "outer_product a b = Mat3 (vx a *\<^sub>R b) (vy a *\<^sub>R b) (vz a *\<^sub>R b)"

definition identity_m :: mat3 where
  "identity_m = Mat3 (Vec3 1 0 0) (Vec3 0 1 0) (Vec3 0 0 1)"

text \<open>
  \<open>a.cast(int)\<close> converts every component from float to int.  Taichi's conversion is the
  C conversion: the fractional part is discarded, so the value is rounded toward zero.
  \<open>b.cast(float)\<close> is the exact embedding of the integers.
\<close>

definition cast_int :: "real \<Rightarrow> int" where
  "cast_int r = (if r < 0 then \<lceil>r\<rceil> else \<lfloor>r\<rfloor>)"

definition vcast_int :: "vec3 \<Rightarrow> ivec3" where
  "vcast_int a = IVec3 (cast_int (vx a)) (cast_int (vy a)) (cast_int (vz a))"

definition vcast_float :: "ivec3 \<Rightarrow> vec3" where
  "vcast_float b = Vec3 (real_of_int (ix b)) (real_of_int (iy b)) (real_of_int (iz b))"

subsection \<open>Global parameters (lines 6--13)\<close>

definition quality :: nat where
  "quality = 1"

definition n_particles :: nat where
  "n_particles = 9000 * quality ^ 2"

definition n_grid :: int where
  "n_grid = 128 * int quality"

definition dx :: real where
  "dx = 1 / real_of_int n_grid"

definition inv_dx :: real where
  "inv_dx = real_of_int n_grid"

definition dt :: real where
  "dt = (1 / 10000) / real quality"

definition p_vol :: real where
  "p_vol = (dx * 0.5) ^ 2"

definition p_rho :: real where
  "p_rho = 1"

definition p_mass :: real where
  "p_mass = p_vol * p_rho"

definition E :: real where
  "E = 1000"

definition nu :: real where
  "nu = 0.2"

definition mu_0 :: real where
  "mu_0 = E / (2 * (1 + nu))"

definition lambda_0 :: real where
  "lambda_0 = E * nu / ((1 + nu) * (1 - 2 * nu))"

subsection \<open>Fields (lines 15--26)\<close>

text \<open>
  The particle fields have shape \<open>n_particles\<close> and the grid fields shape
  \<open>(n_grid, n_grid, n_grid)\<close>.  A field is a function of its index; the valid indices
  are \<open>p < n_particles\<close> and the nodes of \<open>in_grid\<close>.  The fields \<open>material\<close>,
  \<open>attractor_strength\<close> and \<open>attractor_pos\<close> are never read or written by \<open>substep\<close>.
\<close>

record state =
  x :: "nat \<Rightarrow> vec3"
  x_2d :: "nat \<Rightarrow> real \<times> real"
  v :: "nat \<Rightarrow> vec3"
  C :: "nat \<Rightarrow> mat3"
  F :: "nat \<Rightarrow> mat3"
  Jp :: "nat \<Rightarrow> real"
  grid_v :: "ivec3 \<Rightarrow> vec3"
  grid_m :: "ivec3 \<Rightarrow> real"
  gravity :: vec3

definition in_grid :: "ivec3 \<Rightarrow> bool" where
  "in_grid n \<longleftrightarrow>
     0 \<le> ix n \<and> ix n < n_grid \<and> 0 \<le> iy n \<and> iy n < n_grid \<and> 0 \<le> iz n \<and> iz n < n_grid"

text \<open>\<open>ti.ndrange(3, 3, 3)\<close>: the 27 index triples, the first index outermost.\<close>

definition ndrange333 :: "(nat \<times> nat \<times> nat) list" where
  "ndrange333 = concat (map (\<lambda>i. concat (map (\<lambda>j. map (\<lambda>k. (i, j, k)) [0, 1, 2]) [0, 1, 2])) [0, 1, 2])"

definition ivector :: "nat \<times> nat \<times> nat \<Rightarrow> ivec3" where
  "ivector t = (case t of (i, j, k) \<Rightarrow> IVec3 (int i) (int j) (int k))"

text \<open>
  An index outside the shape of a field has no defined result in Taichi (the access is
  not checked outside debug mode).  The model makes it an error: a particle whose 27
  accesses \<open>base + offset\<close> are not all inside the grid makes the kernel return \<open>None\<close>.
\<close>

definition accesses :: "ivec3 \<Rightarrow> ivec3 list" where
  "accesses base = map (\<lambda>t. base + ivector t) ndrange333"

definition accesses_in_grid :: "ivec3 \<Rightarrow> bool" where
  "accesses_in_grid base = list_all in_grid (accesses base)"

text \<open>A sequential \<open>for p in range(n)\<close> whose body may fail.\<close>

primrec for_range :: "nat \<Rightarrow> (nat \<Rightarrow> 's \<Rightarrow> 's option) \<Rightarrow> 's \<Rightarrow> 's option" where
  "for_range 0 body s = Some s"
| "for_range (Suc n) body s =
     (case for_range n body s of None \<Rightarrow> None | Some s' \<Rightarrow> body n s')"

subsection \<open>Constitutive model (lines 28--30 and 50--62)\<close>

definition kirchoff_FCR :: "mat3 \<Rightarrow> mat3 \<Rightarrow> real \<Rightarrow> real \<Rightarrow> real \<Rightarrow> mat3" where
  "kirchoff_FCR Fm R J mu la =
     matmul ((2 * mu) *\<^sub>R (Fm - R)) (transpose_m Fm)
       + (J - 1) *\<^sub>R (J *\<^sub>R (la *\<^sub>R identity_m))"

text \<open>One round of the loop over the singular values (lines 56--59); the state of the
  loop is \<open>(Jp[p], sig, J)\<close>.\<close>

definition sig_step :: "nat \<Rightarrow> real \<times> mat3 \<times> real \<Rightarrow> real \<times> mat3 \<times> real" where
  "sig_step d t =
     (case t of (jp, sig, J) \<Rightarrow>
        (let new_sig = mget sig d d;
             jp' = jp * (mget sig d d / new_sig);
             sig' = mset sig d d new_sig;
             J' = J * new_sig
         in (jp', sig', J')))"

text \<open>
  \<open>ti.svd\<close> is a library routine; it is a parameter \<open>svd\<close> of the kernel, returning
  \<open>(U, sig, V)\<close>.  Lines 50--62 for a particle with deformation gradient \<open>Fp\<close> and plastic
  scalar \<open>jp\<close>: the new plastic scalar and the Kirchhoff stress.
\<close>

definition particle_stress ::
  "(mat3 \<Rightarrow> mat3 \<times> mat3 \<times> mat3) \<Rightarrow> mat3 \<Rightarrow> real \<Rightarrow> real \<times> mat3" where
  "particle_stress svd Fp jp =
     (let mu = mu_0; la = lambda_0 in
      case svd Fp of (U, sig, V) \<Rightarrow>
        (case fold sig_step [0, 1, 2] (jp, sig, 1) of (jp', sig', J) \<Rightarrow>
           (jp', kirchoff_FCR Fp (matmul U (transpose_m V)) J mu la)))"

subsection \<open>Particle to grid (lines 40--82)\<close>

definition p2g_base :: "vec3 \<Rightarrow> ivec3" where
  "p2g_base xp = vcast_int (vmap (\<lambda>a. a - 0.5) (inv_dx *\<^sub>R xp))"

definition p2g_fx :: "vec3 \<Rightarrow> vec3" where
  "p2g_fx xp = inv_dx *\<^sub>R xp - vcast_float (p2g_base xp)"

definition p2g_w :: "vec3 \<Rightarrow> vec3 list" where
  "p2g_w fx =
     [vmap (\<lambda>a. 0.5 * (1.5 - a) ^ 2) fx, vmap (\<lambda>a. 0.75 - (a - 1) ^ 2) fx,
      vmap (\<lambda>a. 0.5 * (a - 0.5) ^ 2) fx]"

definition p2g_dw :: "vec3 \<Rightarrow> vec3 list" where
  "p2g_dw fx = [vmap (\<lambda>a. a - 1.5) fx, vmap (\<lambda>a. - 2.0 * (a - 1)) fx, vmap (\<lambda>a. a - 0.5) fx]"

text \<open>Lines 68 and 71--74, shared verbatim by both transfer loops.\<close>

definition node_weight :: "vec3 list \<Rightarrow> nat \<times> nat \<times> nat \<Rightarrow> real" where
  "node_weight w t = (case t of (i, j, k) \<Rightarrow> vx (w ! i) * vy (w ! j) * vz (w ! k))"

definition node_dweight :: "vec3 list \<Rightarrow> vec3 list \<Rightarrow> nat \<times> nat \<times> nat \<Rightarrow> vec3" where
  "node_dweight w dw t =
     (case t of (i, j, k) \<Rightarrow>
        Vec3 (inv_dx * vx (dw ! i) * vy (w ! j) * vz (w ! k))
             (inv_dx * vx (w ! i) * vy (dw ! j) * vz (w ! k))
             (inv_dx * vx (w ! i) * vy (w ! j) * vz (dw ! k)))"

text \<open>The body of the loop over the neighbourhood (lines 66--82) for particle \<open>p\<close>.\<close>

definition p2g_node ::
  "nat \<Rightarrow> ivec3 \<Rightarrow> vec3 \<Rightarrow> vec3 list \<Rightarrow> vec3 list \<Rightarrow> mat3 \<Rightarrow> nat \<times> nat \<times> nat \<Rightarrow> state \<Rightarrow> state" where
  "p2g_node p base fx w dw kirchoff t s =
     (let offset = ivector t;
          dpos = dx *\<^sub>R (vcast_float offset - fx);
          weight = node_weight w t;
          dweight = node_dweight w dw t;
          force = mat_vec ((- p_vol) *\<^sub>R kirchoff) dweight;
          s1 = s\<lparr>grid_v := (grid_v s)(base + offset :=
                  grid_v s (base + offset) + (p_mass * weight) *\<^sub>R (v s p + mat_vec (C s p) dpos))\<rparr>;
          s2 = s1\<lparr>grid_m := (grid_m s1)(base + offset := grid_m s1 (base + offset) + weight * p_mass)\<rparr>
      in s2\<lparr>grid_v := (grid_v s2)(base + offset := grid_v s2 (base + offset) + dt *\<^sub>R force)\<rparr>)"

definition p2g_particle :: "(mat3 \<Rightarrow> mat3 \<times> mat3 \<times> mat3) \<Rightarrow> nat \<Rightarrow> state \<Rightarrow> state option" where
  "p2g_particle svd p s =
     (let base = p2g_base (x s p);
          fx = p2g_fx (x s p);
          w = p2g_w fx;
          dw = p2g_dw fx
      in case particle_stress svd (F s p) (Jp s p) of (jp', kirchoff) \<Rightarrow>
           if accesses_in_grid base
           then Some (fold (p2g_node p base fx w dw kirchoff) ndrange333 (s\<lparr>Jp := (Jp s)(p := jp')\<rparr>))
           else None)"

subsection \<open>Grid update (lines 85--104)\<close>

text \<open>The six wall checks at node \<open>n\<close>, in the order of the source.\<close>

definition wall :: "ivec3 \<Rightarrow> vec3 \<Rightarrow> vec3" where
  "wall n u0 =
     (let u1 = (if ix n < 3 \<and> vget u0 0 < 0 then vset u0 0 0 else u0);
          u2 = (if ix n > n_grid - 3 \<and> vget u1 0 > 0 then vset u1 0 0 else u1);
          u3 = (if iy n < 3 \<and> vget u2 1 < 0 then vset u2 1 0 else u2);
          u4 = (if iy n > n_grid - 3 \<and> vget u3 1 > 0 then vset u3 1 0 else u3);
          u5 = (if iz n < 3 \<and> vget u4 2 < 0 then vset u4 2 0 else u4)
      in if iz n > n_grid - 3 \<and> vget u5 2 > 0 then vset u5 2 0 else u5)"

text \<open>Lines 88 and 90: momentum to velocity, then gravity.\<close>

definition node_velocity :: "vec3 \<Rightarrow> real \<Rightarrow> vec3 \<Rightarrow> vec3" where
  "node_velocity g m u = (1 / m) *\<^sub>R u + 9.8 *\<^sub>R (dt *\<^sub>R g)"

text \<open>The loops over the grid touch only the node of the iteration, so they are
  written node by node.\<close>

definition grid_update :: "state \<Rightarrow> state" where
  "grid_update s =
     s\<lparr>grid_v := (\<lambda>n. if in_grid n \<and> grid_m s n > 0
                       then wall n (node_velocity (gravity s) (grid_m s n) (grid_v s n))
                       else grid_v s n)\<rparr>"

definition grid_reset :: "state \<Rightarrow> state" where
  "grid_reset s =
     s\<lparr>grid_v := (\<lambda>n. if in_grid n then 0 else grid_v s n),
       grid_m := (\<lambda>n. if in_grid n then 0 else grid_m s n)\<rparr>"

subsection \<open>Grid to particle (lines 107--134)\<close>

definition g2p_base :: "vec3 \<Rightarrow> ivec3" where
  "g2p_base xp = vcast_int (vmap (\<lambda>a. a - 0.5) (inv_dx *\<^sub>R xp))"

definition g2p_fx :: "vec3 \<Rightarrow> vec3" where
  "g2p_fx xp = inv_dx *\<^sub>R xp - vcast_float (g2p_base xp)"

definition g2p_w :: "vec3 \<Rightarrow> vec3 list" where
  "g2p_w fx =
     [vmap (\<lambda>a. 0.5 * (1.5 - a) ^ 2) fx, vmap (\<lambda>a. 0.75 - (a - 1.0) ^ 2) fx,
      vmap (\<lambda>a. 0.5 * (a - 0.5) ^ 2) fx]"

definition g2p_dw :: "vec3 \<Rightarrow> vec3 list" where
  "g2p_dw fx = [vmap (\<lambda>a. a - 1.5) fx, vmap (\<lambda>a. - 2.0 * (a - 1)) fx, vmap (\<lambda>a. a - 0.5) fx]"

text \<open>The body of the loop over the neighbourhood (lines 116--128); the state of the
  loop is \<open>(new_v, new_C, new_F)\<close>.\<close>

definition g2p_node ::
  "(ivec3 \<Rightarrow> vec3) \<Rightarrow> ivec3 \<Rightarrow> vec3 \<Rightarrow> vec3 list \<Rightarrow> vec3 list \<Rightarrow> nat \<times> nat \<times> nat
     \<Rightarrow> vec3 \<times> mat3 \<times> mat3 \<Rightarrow> vec3 \<times> mat3 \<times> mat3" where
  "g2p_node gv base fx w dw t acc =
     (case acc of (new_v, new_C, new_F) \<Rightarrow>
        (let dpos = vcast_float (ivector t) - fx;
             g_v = gv (base + ivector t);
             weight = node_weight w t;
             dweight = node_dweight w dw t
         in (new_v + weight *\<^sub>R g_v,
             new_C + (4 * inv_dx * weight) *\<^sub>R outer_product g_v dpos,
             new_F + outer_product g_v dweight)))"

definition g2p_particle :: "nat \<Rightarrow> state \<Rightarrow> state option" where
  "g2p_particle p s =
     (let base = g2p_base (x s p);
          fx = g2p_fx (x s p);
          w = g2p_w fx;
          dw = g2p_dw fx
      in if accesses_in_grid base
         then (case fold (g2p_node (grid_v s) base fx w dw) ndrange333 (0, 0, 0) of
                 (new_v, new_C, new_F) \<Rightarrow>
                   (let xp = x s p + dt *\<^sub>R new_v
                    in Some (s\<lparr>v := (v s)(p := new_v), C := (C s)(p := new_C),
                               x := (x s)(p := xp), x_2d := (x_2d s)(p := (vget xp 0, vget xp 1)),
                               F := (F s)(p := matmul (identity_m + dt *\<^sub>R new_F) (F s p))\<rparr>)))
         else None)"

subsection \<open>The kernel (lines 32--134)\<close>

definition p2g :: "(mat3 \<Rightarrow> mat3 \<times> mat3 \<times> mat3) \<Rightarrow> state \<Rightarrow> state option" where
  "p2g svd s = for_range n_particles (p2g_particle svd) s"

definition g2p :: "state \<Rightarrow> state option" where
  "g2p s = for_range n_particles g2p_particle s"

definition substep :: "(mat3 \<Rightarrow> mat3 \<times> mat3 \<times> mat3) \<Rightarrow> state \<Rightarrow> state option" where
  "substep svd s =
     (case p2g svd (grid_reset s) of
        None \<Rightarrow> None
      | Some s1 \<Rightarrow> g2p (grid_update s1))"

subsection \<open>Auxiliary notions used in the statements\<close>

text \<open>The base node as the specification words it: the floor, component by component.\<close>

definition spec_base :: "vec3 \<Rightarrow> ivec3" where
  "spec_base xp =
     IVec3 \<lfloor>vx xp * inv_dx - 0.5\<rfloor> \<lfloor>vy xp * inv_dx - 0.5\<rfloor> \<lfloor>vz xp * inv_dx - 0.5\<rfloor>"

text \<open>The box of positions as the specification words it, and the box the code has.\<close>

definition spec_safe_coord :: "real \<Rightarrow> bool" where
  "spec_safe_coord c \<longleftrightarrow> 0.5 * dx \<le> c \<and> c < (real_of_int n_grid - 1.5) * dx"

definition spec_safe_box :: "vec3 \<Rightarrow> bool" where
  "spec_safe_box xp \<longleftrightarrow> spec_safe_coord (vx xp) \<and> spec_safe_coord (vy xp) \<and> spec_safe_coord (vz xp)"

definition safe_coord :: "real \<Rightarrow> bool" where
  "safe_coord c \<longleftrightarrow> - 0.5 * dx < c \<and> c < (real_of_int n_grid - 1.5) * dx"

definition safe_box :: "vec3 \<Rightarrow> bool" where
  "safe_box xp \<longleftrightarrow> safe_coord (vx xp) \<and> safe_coord (vy xp) \<and> safe_coord (vz xp)"

text \<open>What one particle adds to the momentum of the node of offset \<open>t\<close> (lines 79 and 82).\<close>

definition p2g_momentum ::
  "vec3 \<Rightarrow> mat3 \<Rightarrow> vec3 \<Rightarrow> vec3 list \<Rightarrow> vec3 list \<Rightarrow> mat3 \<Rightarrow> nat \<times> nat \<times> nat \<Rightarrow> vec3" where
  "p2g_momentum vp Cp fx w dw k t =
     (p_mass * node_weight w t) *\<^sub>R (vp + mat_vec Cp (dx *\<^sub>R (vcast_float (ivector t) - fx)))
       + dt *\<^sub>R mat_vec ((- p_vol) *\<^sub>R k) (node_dweight w dw t)"

text \<open>Inputs for the examples: a decomposition that is right at the identity, and a state
  whose particles and nodes all hold the same values.\<close>

definition svd_id :: "mat3 \<Rightarrow> mat3 \<times> mat3 \<times> mat3" where
  "svd_id Fm = (identity_m, identity_m, identity_m)"

definition uniform_state :: "vec3 \<Rightarrow> vec3 \<Rightarrow> vec3 \<Rightarrow> real \<Rightarrow> vec3 \<Rightarrow> state" where
  "uniform_state xp v0 gv gm g =
     \<lparr>x = (\<lambda>p. xp), x_2d = (\<lambda>p. (vx xp, vy xp)), v = (\<lambda>p. v0), C = (\<lambda>p. 0),
      F = (\<lambda>p. identity_m), Jp = (\<lambda>p. 1), grid_v = (\<lambda>n. gv), grid_m = (\<lambda>n. gm), gravity = g\<rparr>"

text \<open>What the particle at \<open>xp\<close> adds to the mass and to the momentum of node \<open>n\<close>.\<close>

definition particle_mass_at :: "vec3 \<Rightarrow> ivec3 \<Rightarrow> real" where
  "particle_mass_at xp n =
     (\<Sum>t\<leftarrow>ndrange333. if n = p2g_base xp + ivector t
                        then node_weight (p2g_w (p2g_fx xp)) t * p_mass else 0)"

definition particle_momentum_at :: "vec3 \<Rightarrow> vec3 \<Rightarrow> mat3 \<Rightarrow> mat3 \<Rightarrow> ivec3 \<Rightarrow> vec3" where
  "particle_momentum_at xp vp Cp k n =
     (\<Sum>t\<leftarrow>ndrange333. if n = p2g_base xp + ivector t
                        then p2g_momentum vp Cp (p2g_fx xp) (p2g_w (p2g_fx xp)) (p2g_dw (p2g_fx xp)) k t
                        else 0)"

text \<open>The state after the first \<open>n\<close> rounds of the loop over the particles of P2G.\<close>

definition p2g_result :: "(mat3 \<Rightarrow> mat3 \<times> mat3 \<times> mat3) \<Rightarrow> nat \<Rightarrow> state \<Rightarrow> state" where
  "p2g_result svd n s =
     s\<lparr>Jp := (\<lambda>q. if q < n then fst (particle_stress svd (F s q) (Jp s q)) else Jp s q),
       grid_v := (\<lambda>node. grid_v s node +
          (\<Sum>p<n. particle_momentum_at (x s p) (v s p) (C s p)
                     (snd (particle_stress svd (F s p) (Jp s p))) node)),
       grid_m := (\<lambda>node. grid_m s node + (\<Sum>p<n. particle_mass_at (x s p) node))\<rparr>"

text \<open>The three sums of the loop over the neighbourhood of G2P, for a particle at \<open>xp\<close>
  and grid velocities \<open>gv\<close>.\<close>

definition g2p_new_v :: "(ivec3 \<Rightarrow> vec3) \<Rightarrow> vec3 \<Rightarrow> vec3" where
  "g2p_new_v gv xp =
     (\<Sum>t\<leftarrow>ndrange333. node_weight (g2p_w (g2p_fx xp)) t *\<^sub>R gv (g2p_base xp + ivector t))"

definition g2p_new_C :: "(ivec3 \<Rightarrow> vec3) \<Rightarrow> vec3 \<Rightarrow> mat3" where
  "g2p_new_C gv xp =
     (\<Sum>t\<leftarrow>ndrange333. (4 * inv_dx * node_weight (g2p_w (g2p_fx xp)) t) *\<^sub>R
         outer_product (gv (g2p_base xp + ivector t)) (vcast_float (ivector t) - g2p_fx xp))"

definition g2p_new_F :: "(ivec3 \<Rightarrow> vec3) \<Rightarrow> vec3 \<Rightarrow> mat3" where
  "g2p_new_F gv xp =
     (\<Sum>t\<leftarrow>ndrange333. outer_product (gv (g2p_base xp + ivector t))
         (node_dweight (g2p_w (g2p_fx xp)) (g2p_dw (g2p_fx xp)) t))"

text \<open>The state after the first \<open>n\<close> rounds of the loop over the particles of G2P.\<close>

definition g2p_result :: "nat \<Rightarrow> state \<Rightarrow> state" where
  "g2p_result n s =
     s\<lparr>v := (\<lambda>q. if q < n then g2p_new_v (grid_v s) (x s q) else v s q),
       C := (\<lambda>q. if q < n then g2p_new_C (grid_v s) (x s q) else C s q),
       x := (\<lambda>q. if q < n then x s q + dt *\<^sub>R g2p_new_v (grid_v s) (x s q) else x s q),
       x_2d := (\<lambda>q. if q < n
                     then (vx (x s q + dt *\<^sub>R g2p_new_v (grid_v s) (x s q)),
                           vy (x s q + dt *\<^sub>R g2p_new_v (grid_v s) (x s q)))
                     else x_2d s q),
       F := (\<lambda>q. if q < n then matmul (identity_m + dt *\<^sub>R g2p_new_F (grid_v s) (x s q)) (F s q)
                  else F s q)\<rparr>"

text \<open>The stress of a particle, which depends on its deformation gradient only.\<close>

definition stress_of :: "(mat3 \<Rightarrow> mat3 \<times> mat3 \<times> mat3) \<Rightarrow> mat3 \<Rightarrow> mat3" where
  "stress_of svd Fp =
     (case svd Fp of (U, sig, V) \<Rightarrow>
        kirchoff_FCR Fp (matmul U (transpose_m V)) (mget sig 0 0 * mget sig 1 1 * mget sig 2 2)
          mu_0 lambda_0)"

text \<open>
  The contract of \<open>ti.svd\<close>, the library routine that the kernel calls: \<open>r = (U, sig, V)\<close> is a
  singular value decomposition of \<open>Fm\<close> when \<open>U * sig * V\<^sup>T = Fm\<close>, the columns of \<open>U\<close> and of
  \<open>V\<close> are orthonormal, and \<open>sig\<close> is diagonal with entries that are not negative.
\<close>

definition is_svd :: "mat3 \<Rightarrow> mat3 \<times> mat3 \<times> mat3 \<Rightarrow> bool" where
  "is_svd Fm r =
     (case r of (U, sig, V) \<Rightarrow>
        matmul (matmul U sig) (transpose_m V) = Fm
      \<and> matmul (transpose_m U) U = identity_m
      \<and> matmul (transpose_m V) V = identity_m
      \<and> sig = Mat3 (Vec3 (mget sig 0 0) 0 0) (Vec3 0 (mget sig 1 1) 0) (Vec3 0 0 (mget sig 2 2))
      \<and> 0 \<le> mget sig 0 0 \<and> 0 \<le> mget sig 1 1 \<and> 0 \<le> mget sig 2 2)"

text \<open>
  A neighbourhood away from the walls: its 27 nodes are inside the grid and none of the six
  tests \<open>i < 3\<close>, \<open>i > n_grid - 3\<close>, ... of the wall checks holds at any of them.
\<close>

definition off_wall :: "ivec3 \<Rightarrow> bool" where
  "off_wall n \<longleftrightarrow>
     in_grid n \<and> \<not> ix n < 3 \<and> \<not> ix n > n_grid - 3 \<and> \<not> iy n < 3 \<and> \<not> iy n > n_grid - 3
       \<and> \<not> iz n < 3 \<and> \<not> iz n > n_grid - 3"

definition interior_nodes :: "ivec3 \<Rightarrow> bool" where
  "interior_nodes base = list_all off_wall (accesses base)"

text \<open>
  A state in which the masses that three particles add to node \<open>(1, 1, 1)\<close> cancel: particle 0
  at the corner \<open>(0, 0, 0)\<close> with velocity \<open>(1, 0, 0)\<close>, particles 1 and 2 at
  \<open>(9/512, 1/256, 1/256)\<close> at rest, all others at \<open>(3/4, 3/4, 3/4)\<close> at rest.
\<close>

definition cancel_state :: state where
  "cancel_state =
     \<lparr>x = (\<lambda>p. if p = 0 then Vec3 0 0 0
                else if p < 3 then Vec3 (9 / 512) (1 / 256) (1 / 256)
                else Vec3 (3 / 4) (3 / 4) (3 / 4)),
      x_2d = (\<lambda>p. (0, 0)),
      v = (\<lambda>p. if p = 0 then Vec3 1 0 0 else 0),
      C = (\<lambda>p. 0), F = (\<lambda>p. identity_m), Jp = (\<lambda>p. 1),
      grid_v = (\<lambda>n. 0), grid_m = (\<lambda>n. 0), gravity = 0\<rparr>"

section \<open>Properties\<close>

subsection \<open>Vectors, constants, index arithmetic\<close>

lemmas vec_defs = zero_vec3_def plus_vec3_def minus_vec3_def uminus_vec3_def scaleR_vec3_def
lemmas mat_defs = zero_mat3_def plus_mat3_def minus_mat3_def uminus_mat3_def scaleR_mat3_def

lemma vec3_sel [simp]:
  "vx (a + b) = vx a + vx b" "vy (a + b) = vy a + vy b" "vz (a + b) = vz a + vz b"
  "vx (a - b) = vx a - vx b" "vy (a - b) = vy a - vy b" "vz (a - b) = vz a - vz b"
  "vx (- a) = - vx a" "vy (- a) = - vy a" "vz (- a) = - vz a"
  "vx (c *\<^sub>R a) = c * vx a" "vy (c *\<^sub>R a) = c * vy a" "vz (c *\<^sub>R a) = c * vz a"
  "vx 0 = 0" "vy 0 = 0" "vz 0 = 0"
  by (simp_all add: vec_defs)

lemma mat3_sel [simp]:
  "row0 (M + N) = row0 M + row0 N" "row1 (M + N) = row1 M + row1 N" "row2 (M + N) = row2 M + row2 N"
  "row0 (M - N) = row0 M - row0 N" "row1 (M - N) = row1 M - row1 N" "row2 (M - N) = row2 M - row2 N"
  "row0 (c *\<^sub>R M) = c *\<^sub>R row0 M" "row1 (c *\<^sub>R M) = c *\<^sub>R row1 M" "row2 (c *\<^sub>R M) = c *\<^sub>R row2 M"
  "row0 0 = 0" "row1 0 = 0" "row2 0 = 0"
  by (simp_all add: mat_defs)

lemma consts_val:
  "n_grid = 128" "dx = 1 / 128" "inv_dx = 128" "dt = 1 / 10000" "p_vol = 1 / 65536"
  "p_mass = 1 / 65536" "n_particles = 9000"
  by (simp_all add: n_grid_def dx_def inv_dx_def dt_def p_vol_def p_mass_def p_rho_def
      quality_def n_particles_def power2_eq_square)

lemma lame_val: "mu_0 = 1250 / 3" "lambda_0 = 2500 / 9"
  by (simp_all add: mu_0_def lambda_0_def E_def nu_def)

lemma cast_int_nonneg: "0 \<le> r \<Longrightarrow> cast_int r = \<lfloor>r\<rfloor>"
  by (simp add: cast_int_def)

lemma cast_int_ge0_iff: "0 \<le> cast_int r \<longleftrightarrow> - 1 < r"
  unfolding cast_int_def by (auto simp: ceiling_def; linarith)

lemma cast_int_le_iff: "0 \<le> k \<Longrightarrow> cast_int r \<le> k \<longleftrightarrow> r < real_of_int k + 1"
  unfolding cast_int_def by (auto simp: ceiling_def; linarith)

lemma ndrange333_eq:
  "ndrange333 =
    [(0, 0, 0), (0, 0, 1), (0, 0, 2), (0, 1, 0), (0, 1, 1), (0, 1, 2),
     (0, 2, 0), (0, 2, 1), (0, 2, 2), (1, 0, 0), (1, 0, 1), (1, 0, 2),
     (1, 1, 0), (1, 1, 1), (1, 1, 2), (1, 2, 0), (1, 2, 1), (1, 2, 2),
     (2, 0, 0), (2, 0, 1), (2, 0, 2), (2, 1, 0), (2, 1, 1), (2, 1, 2),
     (2, 2, 0), (2, 2, 1), (2, 2, 2)]"
  by (simp add: ndrange333_def)

lemma set_ndrange333: "set ndrange333 = {0, 1, 2} \<times> {0, 1, 2} \<times> {0, 1, 2}"
  by (auto simp: ndrange333_def)

lemma accesses_in_grid_iff:
  "accesses_in_grid b \<longleftrightarrow>
     0 \<le> ix b \<and> ix b \<le> n_grid - 3 \<and> 0 \<le> iy b \<and> iy b \<le> n_grid - 3 \<and> 0 \<le> iz b \<and> iz b \<le> n_grid - 3"
  unfolding accesses_in_grid_def accesses_def list_all_iff set_map set_ndrange333
  by (auto simp: in_grid_def ivector_def plus_ivec3_def)

lemma base_coord_ok:
  "0 \<le> cast_int (inv_dx * c - 0.5) \<and> cast_int (inv_dx * c - 0.5) \<le> n_grid - 3 \<longleftrightarrow> safe_coord c"
  unfolding cast_int_ge0_iff safe_coord_def
  by (subst cast_int_le_iff) (auto simp: consts_val)

lemma p2g_accesses_iff: "accesses_in_grid (p2g_base xp) \<longleftrightarrow> safe_box xp"
  unfolding accesses_in_grid_iff safe_box_def base_coord_ok [symmetric]
  by (auto simp: p2g_base_def vcast_int_def vmap_def)

lemma g2p_accesses_iff: "accesses_in_grid (g2p_base xp) \<longleftrightarrow> safe_box xp"
  unfolding accesses_in_grid_iff safe_box_def base_coord_ok [symmetric]
  by (auto simp: g2p_base_def vcast_int_def vmap_def)


lemma finite_grid: "finite {n. in_grid n}"
proof -
  have "{n. in_grid n} \<subseteq> (\<lambda>(i, j, k). IVec3 i j k) ` ({0..<n_grid} \<times> {0..<n_grid} \<times> {0..<n_grid})"
  proof
    fix n assume "n \<in> {n. in_grid n}"
    then have "(ix n, iy n, iz n) \<in> {0..<n_grid} \<times> {0..<n_grid} \<times> {0..<n_grid}"
      by (simp add: in_grid_def)
    moreover have "n = (\<lambda>(i, j, k). IVec3 i j k) (ix n, iy n, iz n)" by simp
    ultimately show "n \<in> (\<lambda>(i, j, k). IVec3 i j k) ` ({0..<n_grid} \<times> {0..<n_grid} \<times> {0..<n_grid})"
      by (rule image_eqI [rotated])
  qed
  then show ?thesis by (rule finite_subset) simp
qed

lemma p2g_node_frame [simp]:
  "x (p2g_node p b fx w dw k t s) = x s"
  "x_2d (p2g_node p b fx w dw k t s) = x_2d s"
  "v (p2g_node p b fx w dw k t s) = v s"
  "C (p2g_node p b fx w dw k t s) = C s"
  "F (p2g_node p b fx w dw k t s) = F s"
  "Jp (p2g_node p b fx w dw k t s) = Jp s"
  "gravity (p2g_node p b fx w dw k t s) = gravity s"
  by (simp_all add: p2g_node_def Let_def)

lemma p2g_node_grid_m:
  "grid_m (p2g_node p b fx w dw k t s) n
     = grid_m s n + (if n = b + ivector t then node_weight w t * p_mass else 0)"
  by (simp add: p2g_node_def Let_def)

lemma p2g_node_grid_v:
  "grid_v (p2g_node p b fx w dw k t s) n
     = grid_v s n + (if n = b + ivector t then p2g_momentum (v s p) (C s p) fx w dw k t else 0)"
  by (simp add: p2g_node_def Let_def p2g_momentum_def)

lemma fold_p2g_node_frame [simp]:
  "x (fold (p2g_node p b fx w dw k) ts s) = x s"
  "x_2d (fold (p2g_node p b fx w dw k) ts s) = x_2d s"
  "v (fold (p2g_node p b fx w dw k) ts s) = v s"
  "C (fold (p2g_node p b fx w dw k) ts s) = C s"
  "F (fold (p2g_node p b fx w dw k) ts s) = F s"
  "Jp (fold (p2g_node p b fx w dw k) ts s) = Jp s"
  "gravity (fold (p2g_node p b fx w dw k) ts s) = gravity s"
  by (induction ts arbitrary: s; simp)+

lemma fold_p2g_node_grid_m:
  "grid_m (fold (p2g_node p b fx w dw k) ts s) n
     = grid_m s n + (\<Sum>t\<leftarrow>ts. if n = b + ivector t then node_weight w t * p_mass else 0)"
  by (induction ts arbitrary: s) (simp_all add: p2g_node_grid_m)

lemma fold_p2g_node_grid_v_aux:
  "v s p = vp \<Longrightarrow> C s p = Cp \<Longrightarrow>
   grid_v (fold (p2g_node p b fx w dw k) ts s) n
     = grid_v s n + (\<Sum>t\<leftarrow>ts. if n = b + ivector t then p2g_momentum vp Cp fx w dw k t else 0)"
  by (induction ts arbitrary: s) (simp_all add: p2g_node_grid_v add.assoc)

lemma fold_p2g_node_grid_v:
  "grid_v (fold (p2g_node p b fx w dw k) ts s) n
     = grid_v s n + (\<Sum>t\<leftarrow>ts. if n = b + ivector t then p2g_momentum (v s p) (C s p) fx w dw k t else 0)"
  by (rule fold_p2g_node_grid_v_aux) simp_all

lemma distinct_ndrange333: "distinct ndrange333"
  by (simp add: ndrange333_eq)

lemma ivector_eq_iff: "b + ivector t = b + ivector t' \<longleftrightarrow> t = t'"
  by (cases t; cases t') (simp add: ivector_def plus_ivec3_def)

lemma sum_list_ndrange_single:
  fixes f :: "nat \<times> nat \<times> nat \<Rightarrow> 'a::comm_monoid_add"
  assumes "t \<in> set ndrange333"
  shows "(\<Sum>t'\<leftarrow>ndrange333. if b + ivector t = b + ivector t' then f t' else 0) = f t"
proof -
  have "(\<Sum>t'\<leftarrow>ndrange333. if b + ivector t = b + ivector t' then f t' else 0)
      = (\<Sum>t'\<in>set ndrange333. if t = t' then f t' else 0)"
    by (simp add: sum_list_distinct_conv_sum_set distinct_ndrange333 ivector_eq_iff)
  also have "\<dots> = f t"
    using assms by (simp add: sum.delta')
  finally show ?thesis .
qed

lemma sum_list_ndrange_none:
  fixes f :: "nat \<times> nat \<times> nat \<Rightarrow> 'a::comm_monoid_add"
  assumes "n \<notin> set (accesses b)"
  shows "(\<Sum>t'\<leftarrow>ndrange333. if n = b + ivector t' then f t' else 0) = 0"
proof -
  have "\<forall>t'\<in>set ndrange333. n \<noteq> b + ivector t'"
    using assms by (auto simp: accesses_def)
  then show ?thesis
    by (simp add: sum_list_0 cong: map_cong)
qed

lemma vget_simps [simp]: "vget a 0 = vx a" "vget a 1 = vy a" "vget a 2 = vz a"
  "vget a (Suc 0) = vy a"
  by (simp_all add: vget_def)

lemma vset_simps [simp]:
  "vset a 0 r = Vec3 r (vy a) (vz a)" "vset a 1 r = Vec3 (vx a) r (vz a)"
  "vset a (Suc 0) r = Vec3 (vx a) r (vz a)" "vset a 2 r = Vec3 (vx a) (vy a) r"
  by (simp_all add: vset_def)

subsection \<open>Base node and interpolation kernel of the two transfers\<close>

text \<open>
  Counterexample for claim C6 as stated: for the position \<open>(0, 0, 0)\<close> the code's base node is
  \<open>(0, 0, 0)\<close> (the conversion of \<open>-0.5\<close> to int is 0), while the floor is \<open>(-1, -1, -1)\<close>.
\<close>

theorem base_floor_counterexample: "p2g_base (Vec3 0 0 0) \<noteq> spec_base (Vec3 0 0 0)"
  by (simp add: p2g_base_def spec_base_def vcast_int_def vmap_def cast_int_def consts_val ceiling_def)

text \<open>
  Claim C6, amended: in both transfers the base node is the componentwise conversion to int
  (rounding toward zero) of \<open>position * inv_dx - 0.5\<close>, the local offset is
  \<open>fx = position * inv_dx - base\<close>, and both transfers compute the same base, \<open>fx\<close>, weights
  and weight gradients for the same position.  The base node is the floor of
  \<open>position * inv_dx - 0.5\<close> on every position with \<open>position * inv_dx \<ge> 0.5\<close> on each axis.
\<close>

theorem transfer_symmetry:
  "p2g_base xp = IVec3 (cast_int (vx xp * inv_dx - 0.5)) (cast_int (vy xp * inv_dx - 0.5))
                       (cast_int (vz xp * inv_dx - 0.5))
   \<and> p2g_fx xp = Vec3 (vx xp * inv_dx - real_of_int (ix (p2g_base xp)))
                      (vy xp * inv_dx - real_of_int (iy (p2g_base xp)))
                      (vz xp * inv_dx - real_of_int (iz (p2g_base xp)))
   \<and> g2p_base xp = p2g_base xp \<and> g2p_fx xp = p2g_fx xp
   \<and> g2p_w (g2p_fx xp) = p2g_w (p2g_fx xp) \<and> g2p_dw (g2p_fx xp) = p2g_dw (p2g_fx xp)
   \<and> (0.5 \<le> vx xp * inv_dx \<and> 0.5 \<le> vy xp * inv_dx \<and> 0.5 \<le> vz xp * inv_dx
        \<longrightarrow> p2g_base xp = spec_base xp \<and> g2p_base xp = spec_base xp)"
  by (simp add: p2g_base_def g2p_base_def p2g_fx_def g2p_fx_def p2g_w_def g2p_w_def
      p2g_dw_def g2p_dw_def spec_base_def vcast_int_def vcast_float_def vmap_def
      cast_int_nonneg mult.commute vec_defs)

text \<open>Claim C6 at the position \<open>(1/2, 1/4, 1/8)\<close>.\<close>

theorem transfer_symmetry_witness:
  "p2g_base (Vec3 (1/2) (1/4) (1/8)) = spec_base (Vec3 (1/2) (1/4) (1/8))
   \<and> p2g_base (Vec3 (1/2) (1/4) (1/8)) = IVec3 63 31 15
   \<and> p2g_fx (Vec3 (1/2) (1/4) (1/8)) = Vec3 1 1 1"
  using transfer_symmetry [of "Vec3 (1/2) (1/4) (1/8)"]
  by (simp add: consts_val cast_int_def spec_base_def)

subsection \<open>Positions whose 27 grid accesses are inside the grid\<close>

text \<open>
  Counterexample for claim C10 as stated: the particle at \<open>(0, 0, 0)\<close> has base \<open>(0, 0, 0)\<close>,
  so all its accesses are inside the grid, although its coordinates are below \<open>0.5 * dx\<close>.
\<close>

theorem safe_box_counterexample:
  "accesses_in_grid (p2g_base (Vec3 0 0 0)) \<and> \<not> spec_safe_box (Vec3 0 0 0)"
  by (simp add: p2g_accesses_iff safe_box_def safe_coord_def spec_safe_box_def
      spec_safe_coord_def consts_val)

subsection \<open>Grid update\<close>

text \<open>
  Counterexample for claim C4 as stated: the node two layers away from the low face
  (index 2) has its outward velocity removed, the node two layers away from the high face
  (index \<open>n_grid - 1 - 2\<close>) keeps it.
\<close>

theorem wall_margin_counterexample:
  "vx (wall (IVec3 2 5 5) (Vec3 (- 1) 0 0)) = 0
   \<and> vx (wall (IVec3 (n_grid - 1 - 2) 5 5) (Vec3 1 0 0)) = 1"
  by (simp add: wall_def consts_val Let_def)

lemma wall_vx:
  "vx (wall n u) = (if (ix n < 3 \<and> vx u < 0) \<or> (ix n > n_grid - 3 \<and> vx u > 0) then 0 else vx u)"
  by (simp add: wall_def Let_def)

lemma wall_vy:
  "vy (wall n u) = (if (iy n < 3 \<and> vy u < 0) \<or> (iy n > n_grid - 3 \<and> vy u > 0) then 0 else vy u)"
  by (simp add: wall_def Let_def)

lemma wall_vz:
  "vz (wall n u) = (if (iz n < 3 \<and> vz u < 0) \<or> (iz n > n_grid - 3 \<and> vz u > 0) then 0 else vz u)"
  by (simp add: wall_def Let_def)

lemma margin_layers:
  "0 \<le> i \<Longrightarrow> i < n_grid \<Longrightarrow> (i < 3 \<longleftrightarrow> i \<in> {0, 1, 2}) \<and> (i > n_grid - 3 \<longleftrightarrow> i \<in> {n_grid - 2, n_grid - 1})"
  by (auto simp: consts_val)

lemma grid_update_frame [simp]:
  "x (grid_update s) = x s" "x_2d (grid_update s) = x_2d s" "v (grid_update s) = v s"
  "C (grid_update s) = C s" "F (grid_update s) = F s" "Jp (grid_update s) = Jp s"
  "grid_m (grid_update s) = grid_m s" "gravity (grid_update s) = gravity s"
  by (simp_all add: grid_update_def)

lemma grid_update_grid_v:
  "grid_v (grid_update s) n =
     (if in_grid n \<and> grid_m s n > 0
      then wall n (node_velocity (gravity s) (grid_m s n) (grid_v s n)) else grid_v s n)"
  by (simp add: grid_update_def)

lemma node_velocity_eq:
  "node_velocity g m u =
     Vec3 (vx u / m + dt * vx g * 9.8) (vy u / m + dt * vy g * 9.8) (vz u / m + dt * vz g * 9.8)"
  by (simp add: node_velocity_def vec_defs)

text \<open>
  Claim C4, amended: for a node of positive mass, where \<open>u\<close> is the velocity after the
  gravity step, the wall checks set the component of an axis to zero exactly when the node is
  in one of the three layers 0, 1, 2 at the low face and the component is negative, or in one
  of the two layers \<open>n_grid - 2\<close>, \<open>n_grid - 1\<close> at the high face and the component is
  positive; every other component is the one of \<open>u\<close>.
\<close>

theorem wall_one_sided:
  assumes "in_grid n" and "0 < grid_m s n"
    and "u = node_velocity (gravity s) (grid_m s n) (grid_v s n)"
  shows "vx (grid_v (grid_update s) n) =
           (if (ix n \<in> {0, 1, 2} \<and> vx u < 0) \<or> (ix n \<in> {n_grid - 2, n_grid - 1} \<and> 0 < vx u)
            then 0 else vx u)
       \<and> vy (grid_v (grid_update s) n) =
           (if (iy n \<in> {0, 1, 2} \<and> vy u < 0) \<or> (iy n \<in> {n_grid - 2, n_grid - 1} \<and> 0 < vy u)
            then 0 else vy u)
       \<and> vz (grid_v (grid_update s) n) =
           (if (iz n \<in> {0, 1, 2} \<and> vz u < 0) \<or> (iz n \<in> {n_grid - 2, n_grid - 1} \<and> 0 < vz u)
            then 0 else vz u)"
proof -
  have gv: "grid_v (grid_update s) n = wall n u"
    using assms by (simp add: grid_update_grid_v)
  have mx: "(ix n < 3 \<longleftrightarrow> ix n \<in> {0, 1, 2}) \<and> (ix n > n_grid - 3 \<longleftrightarrow> ix n \<in> {n_grid - 2, n_grid - 1})"
    using assms(1) by (intro margin_layers) (simp_all add: in_grid_def)
  have my: "(iy n < 3 \<longleftrightarrow> iy n \<in> {0, 1, 2}) \<and> (iy n > n_grid - 3 \<longleftrightarrow> iy n \<in> {n_grid - 2, n_grid - 1})"
    using assms(1) by (intro margin_layers) (simp_all add: in_grid_def)
  have mz: "(iz n < 3 \<longleftrightarrow> iz n \<in> {0, 1, 2}) \<and> (iz n > n_grid - 3 \<longleftrightarrow> iz n \<in> {n_grid - 2, n_grid - 1})"
    using assms(1) by (intro margin_layers) (simp_all add: in_grid_def)
  show ?thesis
    unfolding gv wall_vx wall_vy wall_vz using mx my mz by simp
qed

lemma dot_scaleR_left: "dot (c *\<^sub>R a) b = c * dot a b"
  by (simp add: dot_def algebra_simps)

lemma matmul_scaleR_left: "matmul (c *\<^sub>R A) B = c *\<^sub>R matmul A B"
  unfolding matmul_def mat3_sel dot_scaleR_left by (simp add: mat_defs vec_defs)

lemma mget_mset_diag [simp]:
  "mset M 0 0 (mget M 0 0) = M" "mset M 1 1 (mget M 1 1) = M" "mset M 2 2 (mget M 2 2) = M"
  "mset M (Suc 0) (Suc 0) (mget M (Suc 0) (Suc 0)) = M"
  by (simp_all add: mset_def mget_def mrow_def)

lemma sig_loop:
  "fold sig_step [0, 1, 2] (jp, sig, J0) =
     (jp * (mget sig 0 0 / mget sig 0 0) * (mget sig 1 1 / mget sig 1 1) * (mget sig 2 2 / mget sig 2 2),
      sig, J0 * mget sig 0 0 * mget sig 1 1 * mget sig 2 2)"
  by (simp add: sig_step_def Let_def)

lemma particle_stress_eq:
  "svd Fp = (U, sig, V) \<Longrightarrow>
   particle_stress svd Fp jp =
     (jp * (mget sig 0 0 / mget sig 0 0) * (mget sig 1 1 / mget sig 1 1) * (mget sig 2 2 / mget sig 2 2),
      kirchoff_FCR Fp (matmul U (transpose_m V)) (mget sig 0 0 * mget sig 1 1 * mget sig 2 2) mu_0 lambda_0)"
  unfolding particle_stress_def sig_loop Let_def by simp

subsection \<open>Constitutive model\<close>

text \<open>
  Claim C1: the Kirchhoff stress computed for a particle is
  \<open>2 * mu * (F - R) * F\<^sup>T + lambda * J * (J - 1) * I\<close>, where \<open>(U, sig, V)\<close> is the result of
  the singular value decomposition of \<open>F\<close>, \<open>R = U * V\<^sup>T\<close>, \<open>J\<close> is the product of the three
  singular values on the diagonal of \<open>sig\<close>, and \<open>mu = E / (2 (1 + nu))\<close>,
  \<open>lambda = E nu / ((1 + nu) (1 - 2 nu))\<close> with \<open>E = 1000\<close> and \<open>nu = 0.2\<close>.
\<close>

theorem kirchoff_stress:
  assumes "svd Fp = (U, sig, V)"
    and "R = matmul U (transpose_m V)"
    and "J = mget sig 0 0 * mget sig 1 1 * mget sig 2 2"
    and "mu = 1000 / (2 * (1 + 0.2))" and "la = 1000 * 0.2 / ((1 + 0.2) * (1 - 2 * 0.2))"
  shows "snd (particle_stress svd Fp jp) =
           (2 * mu) *\<^sub>R matmul (Fp - R) (transpose_m Fp) + (la * J * (J - 1)) *\<^sub>R identity_m"
proof -
  have "mu = mu_0" "la = lambda_0"
    using assms by (simp_all add: mu_0_def lambda_0_def E_def nu_def)
  then show ?thesis
    using assms(1-3)
    by (simp add: particle_stress_eq kirchoff_FCR_def matmul_scaleR_left mult.commute mult.left_commute)
qed

lemma uniform_state_sel [simp]:
  "x (uniform_state xp v0 gv gm g) = (\<lambda>p. xp)"
  "v (uniform_state xp v0 gv gm g) = (\<lambda>p. v0)"
  "C (uniform_state xp v0 gv gm g) = (\<lambda>p. 0)"
  "F (uniform_state xp v0 gv gm g) = (\<lambda>p. identity_m)"
  "Jp (uniform_state xp v0 gv gm g) = (\<lambda>p. 1)"
  "grid_v (uniform_state xp v0 gv gm g) = (\<lambda>n. gv)"
  "grid_m (uniform_state xp v0 gv gm g) = (\<lambda>n. gm)"
  "gravity (uniform_state xp v0 gv gm g) = g"
  by (simp_all add: uniform_state_def)

text \<open>Claim C1 at the identity: the stress of an undeformed particle is zero.\<close>

theorem kirchoff_stress_witness:
  "svd_id identity_m = (identity_m, identity_m, identity_m)
   \<and> snd (particle_stress svd_id identity_m 1) = 0"
  using kirchoff_stress [of svd_id identity_m identity_m identity_m identity_m
      "matmul identity_m (transpose_m identity_m)" 1 "1000 / (2 * (1 + 0.2))"
      "1000 * 0.2 / ((1 + 0.2) * (1 - 2 * 0.2))" 1]
  by (simp add: svd_id_def identity_m_def mget_def mrow_def matmul_def transpose_m_def mcol_def
      dot_def mat_defs vec_defs)

text \<open>Claim C4 at node \<open>(1, 5, 126)\<close>: low margin on the first axis, high margin on the third.\<close>

theorem wall_one_sided_witness:
  "in_grid (IVec3 1 5 126)
   \<and> grid_v (grid_update (uniform_state 0 0 (Vec3 (- 2) 2 2) 2 0)) (IVec3 1 5 126) = Vec3 0 1 0"
  using wall_one_sided [of "IVec3 1 5 126" "uniform_state 0 0 (Vec3 (- 2) 2 2) 2 0" "Vec3 (- 1) 1 1"]
  by (simp add: in_grid_def consts_val node_velocity_eq vec3.expand)

subsection \<open>The loops over the particles in closed form\<close>

lemma p2g_result_sel [simp]:
  "x (p2g_result svd n s) = x s" "x_2d (p2g_result svd n s) = x_2d s"
  "v (p2g_result svd n s) = v s" "C (p2g_result svd n s) = C s"
  "F (p2g_result svd n s) = F s" "gravity (p2g_result svd n s) = gravity s"
  "Jp (p2g_result svd n s) q = (if q < n then fst (particle_stress svd (F s q) (Jp s q)) else Jp s q)"
  "grid_m (p2g_result svd n s) node = grid_m s node + (\<Sum>p<n. particle_mass_at (x s p) node)"
  "grid_v (p2g_result svd n s) node = grid_v s node +
     (\<Sum>p<n. particle_momentum_at (x s p) (v s p) (C s p) (snd (particle_stress svd (F s p) (Jp s p))) node)"
  by (simp_all add: p2g_result_def)

lemma p2g_particle_eq:
  "p2g_particle svd p s =
     (if accesses_in_grid (p2g_base (x s p))
      then Some (fold (p2g_node p (p2g_base (x s p)) (p2g_fx (x s p)) (p2g_w (p2g_fx (x s p)))
                         (p2g_dw (p2g_fx (x s p))) (snd (particle_stress svd (F s p) (Jp s p))))
                   ndrange333 (s\<lparr>Jp := (Jp s)(p := fst (particle_stress svd (F s p) (Jp s p)))\<rparr>))
      else None)"
  by (simp add: p2g_particle_def Let_def split: prod.splits)

lemma p2g_particle_sel:
  assumes "p2g_particle svd p s = Some s'"
  shows "x s' = x s" "x_2d s' = x_2d s" "v s' = v s" "C s' = C s" "F s' = F s"
    "gravity s' = gravity s"
    "Jp s' = (Jp s)(p := fst (particle_stress svd (F s p) (Jp s p)))"
    "grid_m s' node = grid_m s node + particle_mass_at (x s p) node"
    "grid_v s' node = grid_v s node
       + particle_momentum_at (x s p) (v s p) (C s p) (snd (particle_stress svd (F s p) (Jp s p))) node"
  using assms
  by (auto simp: p2g_particle_eq fold_p2g_node_grid_m fold_p2g_node_grid_v particle_mass_at_def
      particle_momentum_at_def split: if_splits cong: if_cong)

lemma p2g_step:
  assumes "accesses_in_grid (p2g_base (x s n))"
  shows "p2g_particle svd n (p2g_result svd n s) = Some (p2g_result svd (Suc n) s)"
proof -
  obtain s' where s': "p2g_particle svd n (p2g_result svd n s) = Some s'"
    using assms by (simp add: p2g_particle_eq)
  have "s' = p2g_result svd (Suc n) s"
  proof (rule state.equality)
    show "Jp s' = Jp (p2g_result svd (Suc n) s)"
      by (rule ext) (simp add: p2g_particle_sel [OF s'])
    show "grid_m s' = grid_m (p2g_result svd (Suc n) s)"
      by (rule ext) (simp add: p2g_particle_sel [OF s'])
    show "grid_v s' = grid_v (p2g_result svd (Suc n) s)"
      by (rule ext) (simp add: p2g_particle_sel [OF s'] add.assoc)
    show "state.more s' = state.more (p2g_result svd (Suc n) s)" by simp
  qed (simp_all add: p2g_particle_sel [OF s'])
  with s' show ?thesis by simp
qed

lemma p2g_result_0 [simp]: "p2g_result svd 0 s = s"
  by (rule state.equality) (simp_all add: fun_eq_iff)

lemma p2g_range:
  "for_range n (p2g_particle svd) s =
     (if \<forall>p<n. accesses_in_grid (p2g_base (x s p)) then Some (p2g_result svd n s) else None)"
proof (induction n)
  case 0
  show ?case by simp
next
  case (Suc n)
  show ?case
  proof (cases "\<forall>p<n. accesses_in_grid (p2g_base (x s p))")
    case True
    show ?thesis
    proof (cases "accesses_in_grid (p2g_base (x s n))")
      case True
      with \<open>\<forall>p<n. _\<close> have "\<forall>p<Suc n. accesses_in_grid (p2g_base (x s p))"
        by (simp add: less_Suc_eq)
      with Suc \<open>\<forall>p<n. _\<close> True show ?thesis by (simp add: p2g_step)
    next
      case False
      then have "\<not> (\<forall>p<Suc n. accesses_in_grid (p2g_base (x s p)))" by blast
      with Suc \<open>\<forall>p<n. _\<close> False show ?thesis by (simp add: p2g_particle_eq)
    qed
  next
    case False
    then have "\<not> (\<forall>p<Suc n. accesses_in_grid (p2g_base (x s p)))"
      using less_Suc_eq by blast
    with Suc False show ?thesis by simp
  qed
qed

lemma g2p_result_sel [simp]:
  "grid_v (g2p_result n s) = grid_v s" "grid_m (g2p_result n s) = grid_m s"
  "Jp (g2p_result n s) = Jp s" "gravity (g2p_result n s) = gravity s"
  "v (g2p_result n s) q = (if q < n then g2p_new_v (grid_v s) (x s q) else v s q)"
  "C (g2p_result n s) q = (if q < n then g2p_new_C (grid_v s) (x s q) else C s q)"
  "x (g2p_result n s) q = (if q < n then x s q + dt *\<^sub>R g2p_new_v (grid_v s) (x s q) else x s q)"
  "x_2d (g2p_result n s) q =
     (if q < n then (vx (x s q + dt *\<^sub>R g2p_new_v (grid_v s) (x s q)),
                     vy (x s q + dt *\<^sub>R g2p_new_v (grid_v s) (x s q)))
      else x_2d s q)"
  "F (g2p_result n s) q =
     (if q < n then matmul (identity_m + dt *\<^sub>R g2p_new_F (grid_v s) (x s q)) (F s q) else F s q)"
  by (simp_all add: g2p_result_def)

lemma fold_g2p_node:
  "fold (g2p_node gv b fx w dw) ts (a, B, G) =
    (a + (\<Sum>t\<leftarrow>ts. node_weight w t *\<^sub>R gv (b + ivector t)),
     B + (\<Sum>t\<leftarrow>ts. (4 * inv_dx * node_weight w t) *\<^sub>R
            outer_product (gv (b + ivector t)) (vcast_float (ivector t) - fx)),
     G + (\<Sum>t\<leftarrow>ts. outer_product (gv (b + ivector t)) (node_dweight w dw t)))"
  by (induction ts arbitrary: a B G) (simp_all add: g2p_node_def Let_def add.assoc)

lemma g2p_particle_eq:
  "g2p_particle p s =
     (if accesses_in_grid (g2p_base (x s p))
      then Some (s\<lparr>v := (v s)(p := g2p_new_v (grid_v s) (x s p)),
                   C := (C s)(p := g2p_new_C (grid_v s) (x s p)),
                   x := (x s)(p := x s p + dt *\<^sub>R g2p_new_v (grid_v s) (x s p)),
                   x_2d := (x_2d s)(p := (vx (x s p + dt *\<^sub>R g2p_new_v (grid_v s) (x s p)),
                                          vy (x s p + dt *\<^sub>R g2p_new_v (grid_v s) (x s p)))),
                   F := (F s)(p := matmul (identity_m + dt *\<^sub>R g2p_new_F (grid_v s) (x s p)) (F s p))\<rparr>)
      else None)"
  by (simp add: g2p_particle_def Let_def fold_g2p_node g2p_new_v_def g2p_new_C_def g2p_new_F_def)

lemma g2p_step:
  assumes "accesses_in_grid (g2p_base (x s n))"
  shows "g2p_particle n (g2p_result n s) = Some (g2p_result (Suc n) s)"
proof -
  have "g2p_particle n (g2p_result n s) =
      Some ((g2p_result n s)\<lparr>v := (v (g2p_result n s))(n := g2p_new_v (grid_v s) (x s n)),
                   C := (C (g2p_result n s))(n := g2p_new_C (grid_v s) (x s n)),
                   x := (x (g2p_result n s))(n := x s n + dt *\<^sub>R g2p_new_v (grid_v s) (x s n)),
                   x_2d := (x_2d (g2p_result n s))(n := (vx (x s n + dt *\<^sub>R g2p_new_v (grid_v s) (x s n)),
                                          vy (x s n + dt *\<^sub>R g2p_new_v (grid_v s) (x s n)))),
                   F := (F (g2p_result n s))(n := matmul (identity_m + dt *\<^sub>R g2p_new_F (grid_v s) (x s n)) (F s n))\<rparr>)"
    using assms by (simp add: g2p_particle_eq)
  also have "\<dots> = Some (g2p_result (Suc n) s)"
    by (simp, rule state.equality) (auto simp: fun_eq_iff less_Suc_eq)
  finally show ?thesis .
qed

lemma g2p_result_0 [simp]: "g2p_result 0 s = s"
  by (rule state.equality) (simp_all add: fun_eq_iff)

lemma g2p_range:
  "for_range n g2p_particle s =
     (if \<forall>p<n. accesses_in_grid (g2p_base (x s p)) then Some (g2p_result n s) else None)"
proof (induction n)
  case 0
  show ?case by simp
next
  case (Suc n)
  show ?case
  proof (cases "\<forall>p<n. accesses_in_grid (g2p_base (x s p))")
    case True
    show ?thesis
    proof (cases "accesses_in_grid (g2p_base (x s n))")
      case True
      with \<open>\<forall>p<n. _\<close> have "\<forall>p<Suc n. accesses_in_grid (g2p_base (x s p))"
        by (simp add: less_Suc_eq)
      with Suc \<open>\<forall>p<n. _\<close> True show ?thesis by (simp add: g2p_step)
    next
      case False
      then have "\<not> (\<forall>p<Suc n. accesses_in_grid (g2p_base (x s p)))" by blast
      with Suc \<open>\<forall>p<n. _\<close> False show ?thesis by (simp add: g2p_particle_eq)
    qed
  next
    case False
    then have "\<not> (\<forall>p<Suc n. accesses_in_grid (g2p_base (x s p)))"
      using less_Suc_eq by blast
    with Suc False show ?thesis by simp
  qed
qed

lemma grid_reset_sel [simp]:
  "x (grid_reset s) = x s" "x_2d (grid_reset s) = x_2d s" "v (grid_reset s) = v s"
  "C (grid_reset s) = C s" "F (grid_reset s) = F s" "Jp (grid_reset s) = Jp s"
  "gravity (grid_reset s) = gravity s"
  "grid_v (grid_reset s) n = (if in_grid n then 0 else grid_v s n)"
  "grid_m (grid_reset s) n = (if in_grid n then 0 else grid_m s n)"
  by (simp_all add: grid_reset_def)

lemma substep_eq:
  "substep svd s =
     (if \<forall>p<n_particles. safe_box (x s p)
      then Some (g2p_result n_particles (grid_update (p2g_result svd n_particles (grid_reset s))))
      else None)"
  by (simp add: substep_def p2g_def g2p_def p2g_range g2p_range p2g_accesses_iff g2p_accesses_iff)

subsection \<open>Bounds of the grid accesses\<close>

lemma vcast_accesses_iff:
  "accesses_in_grid (vcast_int y) \<longleftrightarrow>
     - 1 < vx y \<and> vx y < real_of_int n_grid - 2 \<and> - 1 < vy y \<and> vy y < real_of_int n_grid - 2
       \<and> - 1 < vz y \<and> vz y < real_of_int n_grid - 2"
proof -
  have k: "0 \<le> n_grid - 3" by (simp add: consts_val)
  have "0 \<le> cast_int r \<and> cast_int r \<le> n_grid - 3 \<longleftrightarrow> - 1 < r \<and> r < real_of_int n_grid - 2" for r
    unfolding cast_int_ge0_iff cast_int_le_iff [OF k] by auto
  then show ?thesis
    unfolding accesses_in_grid_iff vcast_int_def ivec3.sel by blast
qed

text \<open>
  Claim C10, amended: the 27 accesses \<open>base + offset\<close> of a particle are all inside the grid
  if and only if \<open>0 \<le> base \<le> n_grid - 3\<close> on every axis, that is, if and only if the value
  \<open>y\<close> that the program computes for \<open>x[p] * inv_dx - 0.5\<close> and converts with \<open>cast(int)\<close>
  satisfies \<open>-1 < y < n_grid - 2\<close> on every axis (the conversion rounds toward zero, so
  \<open>-1 < y < 0\<close> still gives base 0); P2G and G2P convert the same expression; when the base
  of some particle is outside that range, the kernel has an access outside the grid.
  The second equivalence holds for every \<open>y\<close>, however it was rounded.
\<close>

theorem accesses_inside_iff:
  "(list_all in_grid (accesses b) \<longleftrightarrow>
        0 \<le> ix b \<and> ix b \<le> n_grid - 3 \<and> 0 \<le> iy b \<and> iy b \<le> n_grid - 3
      \<and> 0 \<le> iz b \<and> iz b \<le> n_grid - 3)
   \<and> (list_all in_grid (accesses (vcast_int y)) \<longleftrightarrow>
        - 1 < vx y \<and> vx y < real_of_int n_grid - 2 \<and> - 1 < vy y \<and> vy y < real_of_int n_grid - 2
      \<and> - 1 < vz y \<and> vz y < real_of_int n_grid - 2)
   \<and> p2g_base xp = vcast_int (vmap (\<lambda>a. a - 0.5) (inv_dx *\<^sub>R xp))
   \<and> g2p_base xp = vcast_int (vmap (\<lambda>a. a - 0.5) (inv_dx *\<^sub>R xp))
   \<and> ((\<exists>p<n_particles. \<not> list_all in_grid (accesses (p2g_base (x s p))))
         \<longrightarrow> substep svd s = None)"
proof (intro conjI)
  show "list_all in_grid (accesses b) \<longleftrightarrow>
        0 \<le> ix b \<and> ix b \<le> n_grid - 3 \<and> 0 \<le> iy b \<and> iy b \<le> n_grid - 3
      \<and> 0 \<le> iz b \<and> iz b \<le> n_grid - 3"
    using accesses_in_grid_iff [of b] unfolding accesses_in_grid_def .
  show "list_all in_grid (accesses (vcast_int y)) \<longleftrightarrow>
        - 1 < vx y \<and> vx y < real_of_int n_grid - 2 \<and> - 1 < vy y \<and> vy y < real_of_int n_grid - 2
      \<and> - 1 < vz y \<and> vz y < real_of_int n_grid - 2"
    using vcast_accesses_iff [of y] unfolding accesses_in_grid_def .
  show "p2g_base xp = vcast_int (vmap (\<lambda>a. a - 0.5) (inv_dx *\<^sub>R xp))"
    by (simp add: p2g_base_def)
  show "g2p_base xp = vcast_int (vmap (\<lambda>a. a - 0.5) (inv_dx *\<^sub>R xp))"
    by (simp add: g2p_base_def)
  have "substep svd s = None \<longleftrightarrow> (\<exists>p<n_particles. \<not> accesses_in_grid (p2g_base (x s p)))"
    unfolding p2g_accesses_iff by (simp add: substep_eq)
  then show "(\<exists>p<n_particles. \<not> list_all in_grid (accesses (p2g_base (x s p))))
      \<longrightarrow> substep svd s = None"
    unfolding accesses_in_grid_def by simp
qed

text \<open>Claim C10 for particles at \<open>(1, 1/2, 1/2)\<close>, with base 127 on the first axis, and
  for the converted values \<open>(-1/2, 127/2, 251/2)\<close>, inside, and \<open>(-1, 127/2, 251/2)\<close>, outside.\<close>

theorem accesses_inside_iff_witness:
  "substep svd_id (uniform_state (Vec3 1 (1/2) (1/2)) 0 0 0 0) = None
   \<and> list_all in_grid (accesses (vcast_int (Vec3 (- (1/2)) (127/2) (251/2))))
   \<and> \<not> list_all in_grid (accesses (vcast_int (Vec3 (- 1) (127/2) (251/2))))"
proof -
  let ?s = "uniform_state (Vec3 1 (1/2) (1/2)) 0 0 0 0"
  have n: "0 < n_particles" by (simp add: consts_val)
  have b: "p2g_base (x ?s 0) = IVec3 127 63 63"
    by (simp add: p2g_base_def vcast_int_def vmap_def cast_int_def consts_val)
  note t = accesses_inside_iff [of "IVec3 127 63 63" "Vec3 (- (1/2)) (127/2) (251/2)" 0 ?s svd_id]
  note u = accesses_inside_iff [of "IVec3 127 63 63" "Vec3 (- 1) (127/2) (251/2)" 0 ?s svd_id]
  from t have "\<not> list_all in_grid (accesses (IVec3 127 63 63))"
    by (simp add: consts_val)
  with n b have "\<exists>p<n_particles. \<not> list_all in_grid (accesses (p2g_base (x ?s p)))"
    by metis
  with t have 1: "substep svd_id ?s = None"
    by blast
  from t have 2: "list_all in_grid (accesses (vcast_int (Vec3 (- (1/2)) (127/2) (251/2))))"
    by (simp add: consts_val)
  from u have 3: "\<not> list_all in_grid (accesses (vcast_int (Vec3 (- 1) (127/2) (251/2))))"
    by (simp add: consts_val)
  from 1 2 3 show ?thesis by blast
qed

subsection \<open>Particle to grid\<close>

lemma mat_vec_scaleR: "mat_vec (c *\<^sub>R M) a = c *\<^sub>R mat_vec M a"
  unfolding mat_vec_def mat3_sel dot_scaleR_left by (simp add: vec_defs)

lemma less_3_iff: "(n::nat) < 3 \<longleftrightarrow> n = 0 \<or> n = 1 \<or> n = 2"
  by arith

lemma in_ndrange333: "(i, j, k) \<in> set ndrange333 \<longleftrightarrow> i < 3 \<and> j < 3 \<and> k < 3"
  unfolding set_ndrange333 mem_Sigma_iff less_3_iff by simp

text \<open>
  Claim C2: for a particle \<open>p\<close> whose neighbourhood is inside the grid and each offset
  \<open>(i, j, k)\<close> with \<open>i, j, k\<close> in \<open>{0, 1, 2}\<close>, the loop body of P2G adds
  \<open>p_mass * weight * (v[p] + C[p] ((offset - fx) * dx))\<close> and
  \<open>dt * (- p_vol * tau * dweight)\<close> to the momentum of node \<open>base + offset\<close> and
  \<open>p_mass * weight\<close> to its mass, where \<open>weight\<close> is the product of the three per-axis
  weights; the force enters the momentum undivided.  Nodes outside the neighbourhood keep
  their values.
\<close>

theorem p2g_scatter:
  assumes "accesses_in_grid (p2g_base (x s p))"
    and "i < 3" and "j < 3" and "k < 3"
    and "base = p2g_base (x s p)" and "fx = p2g_fx (x s p)"
    and "w = p2g_w fx" and "dw = p2g_dw fx"
    and "tau = snd (particle_stress svd (F s p) (Jp s p))"
    and "offset = IVec3 (int i) (int j) (int k)"
    and "weight = vx (w ! i) * vy (w ! j) * vz (w ! k)"
    and "dweight = Vec3 (inv_dx * vx (dw ! i) * vy (w ! j) * vz (w ! k))
                        (inv_dx * vx (w ! i) * vy (dw ! j) * vz (w ! k))
                        (inv_dx * vx (w ! i) * vy (w ! j) * vz (dw ! k))"
  shows "\<exists>s'. p2g_particle svd p s = Some s'
     \<and> grid_v s' (base + offset) =
         grid_v s (base + offset)
           + (p_mass * weight) *\<^sub>R (v s p + mat_vec (C s p) (dx *\<^sub>R (vcast_float offset - fx)))
           + dt *\<^sub>R ((- p_vol) *\<^sub>R mat_vec tau dweight)
     \<and> grid_m s' (base + offset) = grid_m s (base + offset) + p_mass * weight
     \<and> (\<forall>n. n \<notin> set (accesses base) \<longrightarrow> grid_v s' n = grid_v s n \<and> grid_m s' n = grid_m s n)"
proof -
  obtain s' where s': "p2g_particle svd p s = Some s'"
    using assms(1) by (simp add: p2g_particle_eq)
  have t: "(i, j, k) \<in> set ndrange333"
    using assms(2-4) by (simp add: in_ndrange333)
  have off: "offset = ivector (i, j, k)"
    by (simp add: assms ivector_def)
  have mv: "mat_vec ((- p_vol) *\<^sub>R tau) dweight = (- p_vol) *\<^sub>R mat_vec tau dweight"
    by (rule mat_vec_scaleR)
  have "grid_m s' (base + offset) = grid_m s (base + offset) + p_mass * weight"
    unfolding p2g_particle_sel [OF s'] particle_mass_at_def off assms(5)
    by (simp add: sum_list_ndrange_single [OF t] node_weight_def assms(6-8,11))
  moreover have "grid_v s' (base + offset) =
         grid_v s (base + offset)
           + (p_mass * weight) *\<^sub>R (v s p + mat_vec (C s p) (dx *\<^sub>R (vcast_float offset - fx)))
           + dt *\<^sub>R ((- p_vol) *\<^sub>R mat_vec tau dweight)"
    unfolding p2g_particle_sel [OF s'] particle_momentum_at_def off assms(5) mv [symmetric]
    by (simp add: sum_list_ndrange_single [OF t] p2g_momentum_def node_weight_def
        node_dweight_def assms(6-9,11,12) add.assoc)
  moreover have "grid_v s' n = grid_v s n \<and> grid_m s' n = grid_m s n"
    if "n \<notin> set (accesses base)" for n
    using that unfolding p2g_particle_sel [OF s'] particle_momentum_at_def particle_mass_at_def assms(5)
    by (simp add: sum_list_ndrange_none)
  ultimately show ?thesis using s' by blast
qed

lemma nth3 [simp]: "[a, b, c] ! 0 = a" "[a, b, c] ! 1 = b" "[a, b, c] ! 2 = c" "[a, b, c] ! Suc 0 = b"
  by simp_all

lemma identity_diag: "mget identity_m 0 0 = 1" "mget identity_m 1 1 = 1" "mget identity_m 2 2 = 1"
  by (simp_all add: identity_m_def mget_def mrow_def)

lemma matmul_identity_left [simp]: "matmul identity_m M = M"
  by (cases M rule: mat3.exhaust, rename_tac a b c, case_tac a, case_tac b, case_tac c)
     (simp add: matmul_def identity_m_def dot_def mcol_def)

lemma transpose_identity [simp]: "transpose_m identity_m = identity_m"
  by (simp add: transpose_m_def identity_m_def mcol_def)

lemma dot_zero_left [simp]: "dot 0 a = 0"
  by (simp add: dot_def)

lemma matmul_zero_left [simp]: "matmul 0 M = 0"
  by (simp add: matmul_def dot_def mat_defs vec_defs)

lemma kirchoff_identity: "kirchoff_FCR identity_m identity_m 1 mu la = 0"
  by (simp add: kirchoff_FCR_def matmul_scaleR_left)

lemma stress_id: "particle_stress svd_id identity_m jp = (jp, 0)"
proof -
  have e: "svd_id identity_m = (identity_m, identity_m, identity_m)"
    by (simp add: svd_id_def)
  show ?thesis
    unfolding particle_stress_eq [of svd_id identity_m identity_m identity_m identity_m, OF e] identity_diag by (simp add: kirchoff_identity)
qed

lemma mat_vec_zero [simp]: "mat_vec 0 a = 0"
  by (simp add: mat_vec_def dot_def vec_defs)

text \<open>Claim C2 for a particle at \<open>(1/2, 1/2, 1/2)\<close> with velocity \<open>(1, 0, 0)\<close> and the
  middle node \<open>(64, 64, 64)\<close> of its neighbourhood.\<close>

theorem p2g_scatter_witness:
  "\<exists>s'. p2g_particle svd_id 0 (uniform_state (Vec3 (1/2) (1/2) (1/2)) (Vec3 1 0 0) 0 0 0) = Some s'
     \<and> grid_v s' (IVec3 64 64 64) = Vec3 (27 / 4194304) 0 0
     \<and> grid_m s' (IVec3 64 64 64) = 27 / 4194304"
proof -
  have b: "p2g_base (Vec3 (1/2) (1/2) (1/2)) = IVec3 63 63 63"
    by (simp add: p2g_base_def vcast_int_def vmap_def cast_int_def consts_val)
  have f: "p2g_fx (Vec3 (1/2) (1/2) (1/2)) = Vec3 1 1 1"
    by (simp add: p2g_fx_def b vcast_float_def consts_val vec_defs)
  have w: "p2g_w (Vec3 1 1 1) = [Vec3 (1/8) (1/8) (1/8), Vec3 (3/4) (3/4) (3/4), Vec3 (1/8) (1/8) (1/8)]"
    by (simp add: p2g_w_def vmap_def power2_eq_square)
  have a: "accesses_in_grid (p2g_base (x (uniform_state (Vec3 (1/2) (1/2) (1/2)) (Vec3 1 0 0) 0 0 0) 0))"
    by (simp add: b accesses_in_grid_iff consts_val)
  have wt: "27 / 64 = vx (p2g_w (Vec3 1 1 1) ! 1) * vy (p2g_w (Vec3 1 1 1) ! 1) * vz (p2g_w (Vec3 1 1 1) ! 1)"
    unfolding w by simp
  have o: "IVec3 63 63 63 + IVec3 (int 1) (int 1) (int 1) = IVec3 64 64 64"
    by (simp add: plus_ivec3_def)
  have m: "p_mass * (27 / 64) = 27 / 4194304"
    by (simp add: consts_val)
  obtain s' where s': "p2g_particle svd_id 0 (uniform_state (Vec3 (1/2) (1/2) (1/2)) (Vec3 1 0 0) 0 0 0) = Some s'"
    and gv: "grid_v s' (IVec3 63 63 63 + IVec3 (int 1) (int 1) (int 1)) =
         grid_v (uniform_state (Vec3 (1/2) (1/2) (1/2)) (Vec3 1 0 0) 0 0 0) (IVec3 63 63 63 + IVec3 (int 1) (int 1) (int 1))
           + (p_mass * (27 / 64)) *\<^sub>R (v (uniform_state (Vec3 (1/2) (1/2) (1/2)) (Vec3 1 0 0) 0 0 0) 0
               + mat_vec (C (uniform_state (Vec3 (1/2) (1/2) (1/2)) (Vec3 1 0 0) 0 0 0) 0)
                   (dx *\<^sub>R (vcast_float (IVec3 (int 1) (int 1) (int 1)) - Vec3 1 1 1)))
           + dt *\<^sub>R ((- p_vol) *\<^sub>R mat_vec 0 (Vec3 0 0 0))"
    and gm: "grid_m s' (IVec3 63 63 63 + IVec3 (int 1) (int 1) (int 1)) =
         grid_m (uniform_state (Vec3 (1/2) (1/2) (1/2)) (Vec3 1 0 0) 0 0 0) (IVec3 63 63 63 + IVec3 (int 1) (int 1) (int 1))
           + p_mass * (27 / 64)"
    using p2g_scatter [where s = "uniform_state (Vec3 (1/2) (1/2) (1/2)) (Vec3 1 0 0) 0 0 0"
        and p = 0 and i = 1 and j = 1 and k = 1 and svd = svd_id and base = "IVec3 63 63 63"
        and fx = "Vec3 1 1 1" and w = "p2g_w (Vec3 1 1 1)" and dw = "p2g_dw (Vec3 1 1 1)"
        and tau = 0 and offset = "IVec3 (int 1) (int 1) (int 1)" and weight = "27 / 64"
        and dweight = "Vec3 0 0 0", OF a _ _ _ _ _ refl refl _ refl wt]
    by (auto simp: b f stress_id w p2g_dw_def vmap_def)
  have "grid_v s' (IVec3 64 64 64) = Vec3 (27 / 4194304) 0 0"
    using gv unfolding o m by (simp add: vec_defs)
  moreover have "grid_m s' (IVec3 64 64 64) = 27 / 4194304"
    using gm unfolding o m by simp
  ultimately show ?thesis using s' by blast
qed

subsection \<open>Grid to particle\<close>

text \<open>
  Claim C5: when all neighbourhoods are inside the grid, G2P gives every particle the new
  velocity \<open>\<Sum> weight * g_v\<close>, the new affine matrix
  \<open>\<Sum> 4 * inv_dx * weight * outer_product(g_v, offset - fx)\<close>, the position advanced by \<open>dt\<close>
  times the new velocity, and the deformation gradient \<open>(I + dt * G) * F\<close> with
  \<open>G = \<Sum> outer_product(g_v, dweight)\<close>, all sums over the 27 nodes of the neighbourhood.
\<close>

theorem g2p_gather:
  assumes "\<forall>q<n_particles. accesses_in_grid (g2p_base (x s q))" and "p < n_particles"
    and "base = g2p_base (x s p)" and "fx = g2p_fx (x s p)"
    and "w = g2p_w fx" and "dw = g2p_dw fx"
    and "g_v = (\<lambda>t. grid_v s (base + ivector t))"
  shows "\<exists>s'. g2p s = Some s'
     \<and> v s' p = (\<Sum>t\<leftarrow>ndrange333. node_weight w t *\<^sub>R g_v t)
     \<and> C s' p = (\<Sum>t\<leftarrow>ndrange333. (4 * inv_dx * node_weight w t) *\<^sub>R
                    outer_product (g_v t) (vcast_float (ivector t) - fx))
     \<and> x s' p = x s p + dt *\<^sub>R v s' p
     \<and> F s' p = matmul (identity_m + dt *\<^sub>R (\<Sum>t\<leftarrow>ndrange333. outer_product (g_v t) (node_dweight w dw t)))
                        (F s p)"
  using assms(1,2) unfolding assms(3-7)
  by (simp add: g2p_def g2p_range g2p_new_v_def g2p_new_C_def g2p_new_F_def)

text \<open>Claim C5 for particles at \<open>(1/2, 1/2, 1/2)\<close> on a grid of constant velocity \<open>(1, 0, 0)\<close>.\<close>

theorem g2p_gather_witness:
  "\<exists>s'. g2p (uniform_state (Vec3 (1/2) (1/2) (1/2)) 0 (Vec3 1 0 0) 1 0) = Some s'
     \<and> x s' 0 = Vec3 (1/2) (1/2) (1/2) + dt *\<^sub>R v s' 0"
proof -
  have "safe_box (Vec3 (1/2) (1/2) (1/2))"
    by (simp add: safe_box_def safe_coord_def consts_val)
  then have a: "\<forall>q<n_particles. accesses_in_grid
      (g2p_base (x (uniform_state (Vec3 (1/2) (1/2) (1/2)) 0 (Vec3 1 0 0) 1 0) q))"
    by (simp add: g2p_accesses_iff)
  have n: "0 < n_particles" by (simp add: consts_val)
  show ?thesis
    using g2p_gather [OF a n refl refl refl refl refl] by auto
qed

subsection \<open>The plastic scalar\<close>

lemma snd_particle_stress: "snd (particle_stress svd Fp jp) = stress_of svd Fp"
proof (cases "svd Fp")
  case (fields U sig V)
  show ?thesis
    unfolding particle_stress_eq [of svd Fp U sig V, OF fields] stress_of_def fields by simp
qed

lemma fst_particle_stress:
  assumes "svd Fp = (U, sig, V)" and "mget sig 0 0 \<noteq> 0" and "mget sig 1 1 \<noteq> 0" and "mget sig 2 2 \<noteq> 0"
  shows "fst (particle_stress svd Fp jp) = jp"
  using assms(2-4) unfolding particle_stress_eq [of svd Fp U sig V, OF assms(1)] by simp

lemma grid_update_Jp_indep:
  "grid_update (s\<lparr>Jp := jp\<rparr>) = (grid_update s)\<lparr>Jp := jp\<rparr>"
  by (rule state.equality) (simp_all add: fun_eq_iff grid_update_grid_v)

lemma g2p_result_Jp_indep:
  "g2p_result n (s\<lparr>Jp := jp\<rparr>) = (g2p_result n s)\<lparr>Jp := jp\<rparr>"
  by (rule state.equality) (simp_all add: fun_eq_iff)

lemma grid_reset_Jp_indep:
  "grid_reset (s\<lparr>Jp := jp\<rparr>) = (grid_reset s)\<lparr>Jp := jp\<rparr>"
  by (rule state.equality) (simp_all add: fun_eq_iff)

text \<open>
  Claim C9: when the kernel runs (all neighbourhoods inside the grid), every particle whose
  three singular values are nonzero keeps its plastic scalar, and a kernel started with any
  other plastic scalars \<open>jp\<close> ends in a state that differs in the field \<open>Jp\<close> only.
\<close>

theorem plastic_scalar_inert:
  assumes "\<forall>p<n_particles. safe_box (x s p)"
  shows "\<exists>s1 s2. substep svd s = Some s1 \<and> substep svd (s\<lparr>Jp := jp\<rparr>) = Some s2
     \<and> (\<forall>p<n_particles.
           (case svd (F s p) of (U, sig, V) \<Rightarrow>
              mget sig 0 0 \<noteq> 0 \<and> mget sig 1 1 \<noteq> 0 \<and> mget sig 2 2 \<noteq> 0)
           \<longrightarrow> Jp s1 p = Jp s p)
     \<and> s2\<lparr>Jp := Jp s1\<rparr> = s1"
proof -
  let ?N = n_particles
  let ?s1 = "g2p_result ?N (grid_update (p2g_result svd ?N (grid_reset s)))"
  let ?s2 = "g2p_result ?N (grid_update (p2g_result svd ?N (grid_reset (s\<lparr>Jp := jp\<rparr>))))"
  have 1: "substep svd s = Some ?s1"
    using assms by (simp add: substep_eq)
  have 2: "substep svd (s\<lparr>Jp := jp\<rparr>) = Some ?s2"
    using assms by (simp add: substep_eq)
  have 3: "Jp ?s1 p = Jp s p"
    if "p < ?N" and "case svd (F s p) of (U, sig, V) \<Rightarrow>
              mget sig 0 0 \<noteq> 0 \<and> mget sig 1 1 \<noteq> 0 \<and> mget sig 2 2 \<noteq> 0" for p
  proof (cases "svd (F s p)")
    case (fields U sig V)
    with that show ?thesis
      by (simp add: fst_particle_stress [of svd "F s p" U sig V])
  qed
  have "p2g_result svd ?N (grid_reset (s\<lparr>Jp := jp\<rparr>))
      = (p2g_result svd ?N (grid_reset s))\<lparr>Jp := Jp (p2g_result svd ?N ((grid_reset s)\<lparr>Jp := jp\<rparr>))\<rparr>"
    unfolding grid_reset_Jp_indep
    by (rule state.equality) (simp_all add: fun_eq_iff snd_particle_stress)
  then have 4: "?s2\<lparr>Jp := Jp ?s1\<rparr> = ?s1"
    by (simp add: grid_update_Jp_indep g2p_result_Jp_indep)
  from 1 2 3 4 show ?thesis by blast
qed

text \<open>Claim C9 for undeformed particles with plastic scalar 1, against plastic scalar 7.\<close>

theorem plastic_scalar_inert_witness:
  "\<exists>s1 s2. substep svd_id (uniform_state (Vec3 (1/2) (1/2) (1/2)) 0 0 0 0) = Some s1
     \<and> substep svd_id ((uniform_state (Vec3 (1/2) (1/2) (1/2)) 0 0 0 0)\<lparr>Jp := (\<lambda>p. 7)\<rparr>) = Some s2
     \<and> Jp s1 0 = 1 \<and> s2\<lparr>Jp := Jp s1\<rparr> = s1"
proof -
  have "safe_box (Vec3 (1/2) (1/2) (1/2))"
    by (simp add: safe_box_def safe_coord_def consts_val)
  then have a: "\<forall>p<n_particles. safe_box (x (uniform_state (Vec3 (1/2) (1/2) (1/2)) 0 0 0 0) p)"
    by simp
  have n: "0 < n_particles" by (simp add: consts_val)
  have d: "mget identity_m 0 0 \<noteq> 0 \<and> mget identity_m 1 1 \<noteq> 0 \<and> mget identity_m 2 2 \<noteq> 0"
    unfolding identity_diag by simp
  show ?thesis
    using plastic_scalar_inert [OF a, of svd_id "\<lambda>p. 7"] n d
    by (auto simp: svd_id_def)
qed

subsection \<open>Conservation of mass\<close>

lemma vmap_sel [simp]: "vx (vmap f a) = f (vx a)" "vy (vmap f a) = f (vy a)" "vz (vmap f a) = f (vz a)"
  by (simp_all add: vmap_def)

lemma bspline_sum: "0.5 * (1.5 - a) ^ 2 + (0.75 - (a - 1) ^ 2) + 0.5 * (a - 0.5) ^ 2 = (1::real)"
  by (simp add: power2_eq_square algebra_simps)

lemma p2g_w_sum:
  "vx (p2g_w fx ! 0) + vx (p2g_w fx ! 1) + vx (p2g_w fx ! 2) = 1"
  "vy (p2g_w fx ! 0) + vy (p2g_w fx ! 1) + vy (p2g_w fx ! 2) = 1"
  "vz (p2g_w fx ! 0) + vz (p2g_w fx ! 1) + vz (p2g_w fx ! 2) = 1"
  unfolding p2g_w_def nth3 vmap_sel by (rule bspline_sum)+

lemma sum_node_weight:
  "(\<Sum>t\<leftarrow>ndrange333. node_weight w t) =
     (vx (w ! 0) + vx (w ! 1) + vx (w ! 2)) * (vy (w ! 0) + vy (w ! 1) + vy (w ! 2))
       * (vz (w ! 0) + vz (w ! 1) + vz (w ! 2))"
  unfolding ndrange333_eq node_weight_def by (simp add: algebra_simps)

lemma sum_p2g_weight: "(\<Sum>t\<leftarrow>ndrange333. node_weight (p2g_w fx) t) = 1"
  unfolding sum_node_weight p2g_w_sum by simp

lemma access_in_grid:
  "accesses_in_grid b \<Longrightarrow> t \<in> set ndrange333 \<Longrightarrow> in_grid (b + ivector t)"
  by (simp add: accesses_in_grid_def accesses_def list_all_iff)

lemma particle_mass_total:
  assumes "accesses_in_grid (p2g_base xp)"
  shows "(\<Sum>n\<in>{n. in_grid n}. particle_mass_at xp n) = p_mass"
proof -
  let ?f = "\<lambda>t. node_weight (p2g_w (p2g_fx xp)) t * p_mass"
  have "(\<Sum>n\<in>{n. in_grid n}. particle_mass_at xp n)
      = (\<Sum>n\<in>{n. in_grid n}. \<Sum>t\<in>set ndrange333. if n = p2g_base xp + ivector t then ?f t else 0)"
    by (simp add: particle_mass_at_def sum_list_distinct_conv_sum_set distinct_ndrange333)
  also have "\<dots> = (\<Sum>t\<in>set ndrange333. \<Sum>n\<in>{n. in_grid n}. if n = p2g_base xp + ivector t then ?f t else 0)"
    by (rule sum.swap)
  also have "\<dots> = (\<Sum>t\<in>set ndrange333. ?f t)"
  proof (rule sum.cong [OF refl])
    fix t assume "t \<in> set ndrange333"
    then have "p2g_base xp + ivector t \<in> {n. in_grid n}"
      using assms by (simp add: access_in_grid)
    then show "(\<Sum>n\<in>{n. in_grid n}. if n = p2g_base xp + ivector t then ?f t else 0) = ?f t"
      by (simp add: sum.delta finite_grid)
  qed
  also have "\<dots> = (\<Sum>t\<leftarrow>ndrange333. ?f t)"
    by (simp add: sum_list_distinct_conv_sum_set distinct_ndrange333)
  also have "\<dots> = (\<Sum>t\<leftarrow>ndrange333. node_weight (p2g_w (p2g_fx xp)) t) * p_mass"
    by (simp add: sum_list_mult_const)
  also have "\<dots> = p_mass"
    by (simp add: sum_p2g_weight)
  finally show ?thesis .
qed

text \<open>
  Claim C7: when every particle has its 27 nodes inside the grid, P2G on the reset grid
  returns, and the masses of all grid nodes then add up to \<open>n_particles * p_mass\<close>; the
  weights of one particle add up to 1 whatever \<open>fx\<close> is.
\<close>

theorem mass_conservation:
  assumes "\<forall>p<n_particles. accesses_in_grid (p2g_base (x s p))"
  shows "\<exists>s'. p2g svd (grid_reset s) = Some s'
     \<and> (\<Sum>n\<in>{n. in_grid n}. grid_m s' n) = real n_particles * p_mass
     \<and> (\<forall>p<n_particles. (\<Sum>t\<leftarrow>ndrange333. node_weight (p2g_w (p2g_fx (x s p))) t) = 1)"
proof -
  let ?s' = "p2g_result svd n_particles (grid_reset s)"
  have 1: "p2g svd (grid_reset s) = Some ?s'"
    using assms by (simp add: p2g_def p2g_range)
  have "(\<Sum>n\<in>{n. in_grid n}. grid_m ?s' n)
      = (\<Sum>n\<in>{n. in_grid n}. \<Sum>p<n_particles. particle_mass_at (x s p) n)"
    by (rule sum.cong [OF refl]) simp
  also have "\<dots> = (\<Sum>p<n_particles. \<Sum>n\<in>{n. in_grid n}. particle_mass_at (x s p) n)"
    by (rule sum.swap)
  also have "\<dots> = (\<Sum>p<n_particles. p_mass)"
    by (rule sum.cong [OF refl]) (simp add: particle_mass_total assms)
  also have "\<dots> = real n_particles * p_mass"
    by simp
  finally have 2: "(\<Sum>n\<in>{n. in_grid n}. grid_m ?s' n) = real n_particles * p_mass" .
  from 1 2 show ?thesis by (simp add: sum_p2g_weight)
qed

text \<open>Claim C7 for 9000 particles at \<open>(1/2, 1/2, 1/2)\<close>: the total mass is \<open>9000 / 65536\<close>.\<close>

theorem mass_conservation_witness:
  "\<exists>s'. p2g svd_id (grid_reset (uniform_state (Vec3 (1/2) (1/2) (1/2)) 0 0 0 0)) = Some s'
     \<and> (\<Sum>n\<in>{n. in_grid n}. grid_m s' n) = 1125 / 8192"
proof -
  have "safe_box (Vec3 (1/2) (1/2) (1/2))"
    by (simp add: safe_box_def safe_coord_def consts_val)
  then have a: "\<forall>p<n_particles. accesses_in_grid
      (p2g_base (x (uniform_state (Vec3 (1/2) (1/2) (1/2)) 0 0 0 0) p))"
    by (simp add: p2g_accesses_iff)
  have m: "real n_particles * p_mass = 1125 / 8192"
    by (simp add: consts_val)
  show ?thesis
    using mass_conservation [OF a, of svd_id] unfolding m by blast
qed

subsection \<open>The stress of an undeformed particle\<close>

lemma mat3_cases9:
  obtains a b c d e f g h i where "M = Mat3 (Vec3 a b c) (Vec3 d e f) (Vec3 g h i)"
proof (cases M)
  case (Mat3 r0 r1 r2)
  obtain a b c where "r0 = Vec3 a b c" by (cases r0)
  moreover obtain d e f where "r1 = Vec3 d e f" by (cases r1)
  moreover obtain g h i where "r2 = Vec3 g h i" by (cases r2)
  ultimately show ?thesis using Mat3 that by simp
qed

lemmas mat_ops = matmul_def transpose_m_def mcol_def dot_def identity_m_def

lemma matmul_identity_right [simp]: "matmul M identity_m = M"
  by (cases M rule: mat3_cases9) (simp add: mat_ops)

lemma transpose_matmul: "transpose_m (matmul A B) = matmul (transpose_m B) (transpose_m A)"
  by (cases A rule: mat3_cases9, cases B rule: mat3_cases9) (simp add: mat_ops mult.commute)

lemma transpose_transpose [simp]: "transpose_m (transpose_m M) = M"
  by (cases M rule: mat3_cases9) (simp add: mat_ops)

lemma matmul_assoc: "matmul (matmul A B) D = matmul A (matmul B D)"
  by (cases A rule: mat3_cases9, cases B rule: mat3_cases9, cases D rule: mat3_cases9)
     (simp add: mat_ops algebra_simps)

lemma diag_transpose:
  "transpose_m (Mat3 (Vec3 a 0 0) (Vec3 0 b 0) (Vec3 0 0 c)) = Mat3 (Vec3 a 0 0) (Vec3 0 b 0) (Vec3 0 0 c)"
  by (simp add: mat_ops)

lemma diag_square:
  "matmul (Mat3 (Vec3 a 0 0) (Vec3 0 b 0) (Vec3 0 0 c)) (Mat3 (Vec3 a 0 0) (Vec3 0 b 0) (Vec3 0 0 c))
     = Mat3 (Vec3 (a * a) 0 0) (Vec3 0 (b * b) 0) (Vec3 0 0 (c * c))"
  by (simp add: mat_ops)

lemma square_one:
  assumes "0 \<le> (a::real)" and "a * a = 1"
  shows "a = 1"
proof -
  have "(a - 1) * (a + 1) = 0"
    using assms(2) by (simp add: algebra_simps)
  then have "a - 1 = 0 \<or> a + 1 = 0"
    by (simp only: mult_eq_0_iff)
  with assms(1) show ?thesis by linarith
qed

lemma svd_identity:
  assumes "is_svd identity_m (U, sig, V)"
  shows "sig = identity_m" and "matmul U (transpose_m V) = identity_m"
proof -
  let ?Ut = "transpose_m U" and ?Vt = "transpose_m V"
  define a where "a = mget sig 0 0"
  define b where "b = mget sig 1 1"
  define c where "c = mget sig 2 2"
  note h = assms [unfolded is_svd_def prod.case, folded a_def b_def c_def]
  from h have usv: "matmul (matmul U sig) ?Vt = identity_m" by (elim conjE)
  from h have uu: "matmul ?Ut U = identity_m" by (elim conjE)
  from h have vv: "matmul ?Vt V = identity_m" by (elim conjE)
  from h have diag: "sig = Mat3 (Vec3 a 0 0) (Vec3 0 b 0) (Vec3 0 0 c)" by (elim conjE)
  from h have pa: "0 \<le> a" by (elim conjE)
  from h have pb: "0 \<le> b" by (elim conjE)
  from h have pc: "0 \<le> c" by (elim conjE)
  have "matmul ?Ut (matmul (matmul U sig) ?Vt) = matmul (matmul (matmul ?Ut U) sig) ?Vt"
    by (simp only: matmul_assoc)
  then have svt: "matmul sig ?Vt = ?Ut"
    by (simp only: usv uu matmul_identity_right matmul_identity_left)
  have "matmul (matmul sig ?Vt) V = matmul sig (matmul ?Vt V)"
    by (rule matmul_assoc)
  then have s: "sig = matmul ?Ut V"
    by (simp only: svt vv matmul_identity_right)
  have ts: "transpose_m sig = sig"
    unfolding diag by (rule diag_transpose)
  have "transpose_m (matmul ?Ut V) = matmul ?Vt U"
    by (simp only: transpose_matmul transpose_transpose)
  then have vu: "matmul ?Vt U = sig"
    by (simp only: s [symmetric] ts)
  have "matmul sig sig = matmul (matmul sig ?Vt) U"
    by (simp only: matmul_assoc vu)
  then have ss: "matmul sig sig = identity_m"
    by (simp only: svt uu)
  then have "a * a = 1 \<and> b * b = 1 \<and> c * c = 1"
    unfolding diag diag_square identity_m_def by simp
  then have "a = 1" "b = 1" "c = 1"
    using pa pb pc by (blast intro: square_one)+
  then show i: "sig = identity_m"
    unfolding diag identity_m_def by simp
  show "matmul U (transpose_m V) = identity_m"
    using usv unfolding i by (simp only: matmul_identity_right)
qed

subsection \<open>Rigid translation\<close>

lemma stress_of_identity:
  assumes "is_svd identity_m (svd identity_m)"
  shows "stress_of svd identity_m = 0"
proof (cases "svd identity_m")
  case (fields U sig V)
  with assms have h: "is_svd identity_m (U, sig, V)" by simp
  show ?thesis
    unfolding stress_of_def fields prod.case svd_identity [OF h] identity_diag
    by (simp add: kirchoff_identity)
qed

lemma mat_vec_zero_right [simp]: "mat_vec M 0 = 0"
  by (simp add: mat_vec_def dot_def vec_defs)

lemma p2g_momentum_rigid:
  "p2g_momentum v0 0 fx w dw 0 t = (node_weight w t * p_mass) *\<^sub>R v0"
  by (simp add: p2g_momentum_def mult.commute)

lemma sum_list_scaleR_if:
  fixes u :: "'a::real_vector"
  shows "(\<Sum>t\<leftarrow>ts. if c t then g t *\<^sub>R u else 0) = (\<Sum>t\<leftarrow>ts. if c t then g t else 0) *\<^sub>R u"
  by (induction ts) (simp_all add: scaleR_left_distrib)

lemma particle_momentum_rigid:
  "particle_momentum_at xp v0 0 0 n = particle_mass_at xp n *\<^sub>R v0"
  unfolding particle_momentum_at_def particle_mass_at_def p2g_momentum_rigid
  by (rule sum_list_scaleR_if)

lemma interior_nodes_iff:
  "interior_nodes b \<longleftrightarrow>
     3 \<le> ix b \<and> ix b \<le> n_grid - 5 \<and> 3 \<le> iy b \<and> iy b \<le> n_grid - 5 \<and> 3 \<le> iz b \<and> iz b \<le> n_grid - 5"
  unfolding interior_nodes_def accesses_def list_all_iff set_map set_ndrange333
  by (auto simp: off_wall_def in_grid_def ivector_def plus_ivec3_def consts_val)

lemma interior_off_wall:
  "interior_nodes b \<Longrightarrow> t \<in> set ndrange333 \<Longrightarrow> off_wall (b + ivector t)"
  by (simp add: interior_nodes_def accesses_def list_all_iff)

lemma interior_accesses: "interior_nodes b \<Longrightarrow> accesses_in_grid b"
  by (simp add: interior_nodes_iff accesses_in_grid_iff)

lemma wall_off_wall: "off_wall n \<Longrightarrow> wall n u = u"
  by (simp add: off_wall_def wall_def Let_def)

lemma cast_int_pos: "1 \<le> cast_int r \<Longrightarrow> cast_int r = \<lfloor>r\<rfloor>"
  unfolding cast_int_def by (cases "r < 0"; simp; linarith)

lemma fx_range:
  assumes "1 \<le> cast_int (a - 0.5)"
  shows "0.5 \<le> a - real_of_int (cast_int (a - 0.5))" and "a - real_of_int (cast_int (a - 0.5)) \<le> 1.5"
  unfolding cast_int_pos [OF assms] by linarith+

lemma bspline_nonneg:
  assumes "0.5 \<le> (a::real)" and "a \<le> 1.5"
  shows "0 \<le> 0.5 * (1.5 - a) ^ 2" and "0 \<le> 0.75 - (a - 1) ^ 2" and "0 \<le> 0.5 * (a - 0.5) ^ 2"
proof -
  have "(a - 1 / 2) * (a - 3 / 2) \<le> 0"
    using assms by (intro mult_nonneg_nonpos) simp_all
  moreover have "(a - 1) ^ 2 = (a - 1 / 2) * (a - 3 / 2) + 1 / 4"
    by (simp add: power2_eq_square field_simps)
  ultimately have "0 \<le> 3 / 4 - (a - 1) ^ 2"
    by linarith
  then show "0 \<le> 0.75 - (a - 1) ^ 2"
    by simp
qed simp_all

lemma g2p_eq_p2g:
  "g2p_base xp = p2g_base xp" "g2p_fx xp = p2g_fx xp" "g2p_w fx = p2g_w fx" "g2p_dw fx = p2g_dw fx"
  by (simp_all add: g2p_base_def p2g_base_def g2p_fx_def p2g_fx_def g2p_w_def p2g_w_def
      g2p_dw_def p2g_dw_def)

lemma p2g_base_sel:
  "ix (p2g_base xp) = cast_int (inv_dx * vx xp - 0.5)"
  "iy (p2g_base xp) = cast_int (inv_dx * vy xp - 0.5)"
  "iz (p2g_base xp) = cast_int (inv_dx * vz xp - 0.5)"
  by (simp_all add: p2g_base_def vcast_int_def)

lemma p2g_fx_sel:
  "vx (p2g_fx xp) = inv_dx * vx xp - real_of_int (cast_int (inv_dx * vx xp - 0.5))"
  "vy (p2g_fx xp) = inv_dx * vy xp - real_of_int (cast_int (inv_dx * vy xp - 0.5))"
  "vz (p2g_fx xp) = inv_dx * vz xp - real_of_int (cast_int (inv_dx * vz xp - 0.5))"
  by (simp_all add: p2g_fx_def p2g_base_sel vcast_float_def)

lemma p2g_fx_range:
  assumes "interior_nodes (p2g_base xp)"
  shows "0.5 \<le> vx (p2g_fx xp) \<and> vx (p2g_fx xp) \<le> 1.5"
    and "0.5 \<le> vy (p2g_fx xp) \<and> vy (p2g_fx xp) \<le> 1.5"
    and "0.5 \<le> vz (p2g_fx xp) \<and> vz (p2g_fx xp) \<le> 1.5"
proof -
  from assms have "1 \<le> cast_int (inv_dx * vx xp - 0.5)" "1 \<le> cast_int (inv_dx * vy xp - 0.5)"
    "1 \<le> cast_int (inv_dx * vz xp - 0.5)"
    unfolding interior_nodes_iff p2g_base_sel by linarith+
  then show "0.5 \<le> vx (p2g_fx xp) \<and> vx (p2g_fx xp) \<le> 1.5"
    and "0.5 \<le> vy (p2g_fx xp) \<and> vy (p2g_fx xp) \<le> 1.5"
    and "0.5 \<le> vz (p2g_fx xp) \<and> vz (p2g_fx xp) \<le> 1.5"
    unfolding p2g_fx_sel by (blast intro: fx_range)+
qed

lemma p2g_w_nonneg:
  assumes "0.5 \<le> vx fx \<and> vx fx \<le> 1.5" and "0.5 \<le> vy fx \<and> vy fx \<le> 1.5"
    and "0.5 \<le> vz fx \<and> vz fx \<le> 1.5" and "i < 3"
  shows "0 \<le> vx (p2g_w fx ! i)" and "0 \<le> vy (p2g_w fx ! i)" and "0 \<le> vz (p2g_w fx ! i)"
proof -
  from assms(4) consider "i = 0" | "i = 1" | "i = 2"
    unfolding less_3_iff by blast
  then show "0 \<le> vx (p2g_w fx ! i)"
    using bspline_nonneg [of "vx fx"] assms(1) unfolding p2g_w_def by cases simp_all
  from assms(4) consider "i = 0" | "i = 1" | "i = 2"
    unfolding less_3_iff by blast
  then show "0 \<le> vy (p2g_w fx ! i)"
    using bspline_nonneg [of "vy fx"] assms(2) unfolding p2g_w_def by cases simp_all
  from assms(4) consider "i = 0" | "i = 1" | "i = 2"
    unfolding less_3_iff by blast
  then show "0 \<le> vz (p2g_w fx ! i)"
    using bspline_nonneg [of "vz fx"] assms(3) unfolding p2g_w_def by cases simp_all
qed

lemma node_weight_nonneg:
  assumes "interior_nodes (p2g_base xp)" and "t \<in> set ndrange333"
  shows "0 \<le> node_weight (p2g_w (p2g_fx xp)) t"
proof -
  obtain i j k where t: "t = (i, j, k)" by (cases t)
  with assms(2) have "i < 3" "j < 3" "k < 3"
    by (simp_all add: in_ndrange333)
  then show ?thesis
    unfolding t node_weight_def prod.case
    using p2g_w_nonneg [OF p2g_fx_range [OF assms(1)]]
    by (intro mult_nonneg_nonneg) blast+
qed

lemma p_mass_pos: "0 < p_mass"
  by (simp add: consts_val)

lemma particle_mass_nonneg:
  assumes "interior_nodes (p2g_base xp)"
  shows "0 \<le> particle_mass_at xp n"
  unfolding particle_mass_at_def
proof (rule sum_list_nonneg)
  fix a
  assume "a \<in> set (map (\<lambda>t. if n = p2g_base xp + ivector t
      then node_weight (p2g_w (p2g_fx xp)) t * p_mass else 0) ndrange333)"
  then obtain t where "t \<in> set ndrange333"
    and "a = (if n = p2g_base xp + ivector t then node_weight (p2g_w (p2g_fx xp)) t * p_mass else 0)"
    by auto
  then show "0 \<le> a"
    using node_weight_nonneg [OF assms, of t] p_mass_pos by simp
qed

lemma particle_mass_own:
  assumes "t \<in> set ndrange333"
  shows "particle_mass_at xp (p2g_base xp + ivector t) = node_weight (p2g_w (p2g_fx xp)) t * p_mass"
  unfolding particle_mass_at_def by (rule sum_list_ndrange_single [OF assms])

lemma sum_list_scaleR:
  fixes u :: "'a::real_vector"
  shows "(\<Sum>t\<leftarrow>ts. g t *\<^sub>R u) = (\<Sum>t\<leftarrow>ts. g t) *\<^sub>R u"
  by (induction ts) (simp_all add: scaleR_left_distrib)

lemma sum_list_cong:
  fixes f g :: "'b \<Rightarrow> 'a::comm_monoid_add"
  assumes "\<And>t. t \<in> set ts \<Longrightarrow> f t = g t"
  shows "(\<Sum>t\<leftarrow>ts. f t) = (\<Sum>t\<leftarrow>ts. g t)"
  using assms by (induction ts) simp_all

lemma node_velocity_rigid: "0 < m \<Longrightarrow> node_velocity 0 m (m *\<^sub>R u) = u"
  by (simp add: node_velocity_def)

text \<open>
  Claim C8: let every particle have the velocity \<open>v0\<close>, the affine matrix zero and the
  deformation gradient the identity, let gravity be zero, let every node of every
  neighbourhood be inside the grid and away from the wall margins, and let \<open>ti.svd\<close> return a
  singular value decomposition of the identity.  Then the kernel returns, every particle
  still has the velocity \<open>v0\<close>, and its position has advanced by \<open>dt * v0\<close>.
\<close>

theorem rigid_translation:
  assumes rigid: "\<forall>p<n_particles. v s p = v0 \<and> C s p = 0 \<and> F s p = identity_m"
    and grav: "gravity s = 0"
    and inner: "\<forall>p<n_particles. interior_nodes (p2g_base (x s p))"
    and dec: "is_svd identity_m (svd identity_m)"
  shows "\<exists>s'. substep svd s = Some s'
     \<and> (\<forall>p<n_particles. v s' p = v0 \<and> x s' p = x s p + dt *\<^sub>R v0)"
proof -
  let ?N = n_particles
  let ?s1 = "p2g_result svd ?N (grid_reset s)"
  let ?s2 = "grid_update ?s1"
  let ?s3 = "g2p_result ?N ?s2"
  define M where "M n = (\<Sum>p<?N. particle_mass_at (x s p) n)" for n
  have safe: "\<forall>p<?N. safe_box (x s p)"
    using inner by (simp add: interior_accesses flip: p2g_accesses_iff)
  then have run: "substep svd s = Some ?s3"
    by (simp add: substep_eq)
  have m1: "grid_m ?s1 n = M n" if "in_grid n" for n
    using that by (simp add: M_def)
  have "(\<Sum>p<?N. particle_momentum_at (x s p) (v s p) (C s p)
            (snd (particle_stress svd (F s p) (Jp s p))) n)
      = (\<Sum>p<?N. particle_mass_at (x s p) n *\<^sub>R v0)" for n
    by (rule sum.cong [OF refl])
       (simp add: rigid snd_particle_stress stress_of_identity [of svd, OF dec] particle_momentum_rigid)
  then have v1: "grid_v ?s1 n = M n *\<^sub>R v0" if "in_grid n" for n
    using that by (simp add: M_def scaleR_left.sum)
  have M_ge: "particle_mass_at (x s p) n \<le> M n" if "p < ?N" for p n
    unfolding M_def
    by (rule member_le_sum) (use that inner in \<open>simp_all add: particle_mass_nonneg\<close>)
  have node: "node_weight (p2g_w (p2g_fx (x s p))) t *\<^sub>R grid_v ?s2 (p2g_base (x s p) + ivector t)
      = node_weight (p2g_w (p2g_fx (x s p))) t *\<^sub>R v0"
    if p: "p < ?N" and t: "t \<in> set ndrange333" for p t
  proof (cases "node_weight (p2g_w (p2g_fx (x s p))) t = 0")
    case True
    then show ?thesis by simp
  next
    case False
    let ?n = "p2g_base (x s p) + ivector t"
    from p inner have int: "interior_nodes (p2g_base (x s p))" by simp
    from False node_weight_nonneg [OF int t]
    have "0 < node_weight (p2g_w (p2g_fx (x s p))) t" by simp
    then have "0 < particle_mass_at (x s p) ?n"
      unfolding particle_mass_own [OF t] using p_mass_pos by (rule mult_pos_pos)
    with M_ge [OF p, of ?n] have Mpos: "0 < M ?n" by simp
    have ow: "off_wall ?n"
      using int t by (rule interior_off_wall)
    then have ig: "in_grid ?n" by (simp add: off_wall_def)
    have gm: "grid_m ?s1 ?n = M ?n" by (rule m1 [OF ig])
    have gv: "grid_v ?s1 ?n = M ?n *\<^sub>R v0" by (rule v1 [OF ig])
    have gg: "gravity ?s1 = 0" using grav by simp
    have "grid_v ?s2 ?n = wall ?n (node_velocity 0 (M ?n) (M ?n *\<^sub>R v0))"
      unfolding grid_update_grid_v gm gv gg using ig Mpos by simp
    also have "\<dots> = v0"
      using Mpos ow by (simp add: node_velocity_rigid wall_off_wall)
    finally show ?thesis by simp
  qed
  have new_v: "g2p_new_v (grid_v ?s2) (x s p) = v0" if p: "p < ?N" for p
  proof -
    have "g2p_new_v (grid_v ?s2) (x s p)
        = (\<Sum>t\<leftarrow>ndrange333. node_weight (p2g_w (p2g_fx (x s p))) t *\<^sub>R v0)"
      unfolding g2p_new_v_def g2p_eq_p2g by (rule sum_list_cong) (rule node [OF p])
    also have "\<dots> = v0"
      by (simp add: sum_list_scaleR sum_p2g_weight)
    finally show ?thesis .
  qed
  have "v ?s3 p = v0 \<and> x ?s3 p = x s p + dt *\<^sub>R v0" if "p < ?N" for p
    using that by (simp add: new_v)
  with run show ?thesis by blast
qed

text \<open>Claim C8 for 9000 particles at \<open>(1/2, 1/2, 1/2)\<close> with velocity \<open>(1, 2, 3)\<close>.\<close>

theorem rigid_translation_witness:
  "\<exists>s'. substep svd_id (uniform_state (Vec3 (1/2) (1/2) (1/2)) (Vec3 1 2 3) 0 0 0) = Some s'
     \<and> v s' 0 = Vec3 1 2 3
     \<and> x s' 0 = Vec3 (5001 / 10000) (2501 / 5000) (5003 / 10000)"
proof -
  let ?s = "uniform_state (Vec3 (1/2) (1/2) (1/2)) (Vec3 1 2 3) 0 0 0"
  have b: "p2g_base (Vec3 (1/2) (1/2) (1/2)) = IVec3 63 63 63"
    by (simp add: p2g_base_def vcast_int_def vmap_def cast_int_def consts_val)
  have 1: "\<forall>p<n_particles. v ?s p = Vec3 1 2 3 \<and> C ?s p = 0 \<and> F ?s p = identity_m"
    by simp
  have 2: "gravity ?s = 0" by simp
  have 3: "\<forall>p<n_particles. interior_nodes (p2g_base (x ?s p))"
    by (simp add: b interior_nodes_iff consts_val)
  have 4: "is_svd identity_m (svd_id identity_m)"
    unfolding is_svd_def svd_id_def prod.case identity_diag
    by (intro conjI) (simp_all add: identity_m_def [symmetric])
  have n: "0 < n_particles" by (simp add: consts_val)
  have e: "Vec3 (1/2) (1/2) (1/2) + dt *\<^sub>R Vec3 1 2 3 = Vec3 (5001 / 10000) (2501 / 5000) (5003 / 10000)"
    by (simp add: consts_val vec_defs)
  show ?thesis
    using rigid_translation [of ?s "Vec3 1 2 3" svd_id, OF 1 2 3 4] n unfolding e [symmetric]
    by auto
qed

subsection \<open>Nodes of zero mass after P2G\<close>

lemma fx_range_floor:
  assumes "0 \<le> a - 0.5"
  shows "0.5 \<le> a - real_of_int (cast_int (a - 0.5))" and "a - real_of_int (cast_int (a - 0.5)) \<le> 1.5"
  unfolding cast_int_nonneg [OF assms] by linarith+

lemma spec_safe_coord_nonneg: "spec_safe_coord c \<Longrightarrow> 0 \<le> inv_dx * c - 0.5"
  by (simp add: spec_safe_coord_def consts_val)

lemma spec_safe_fx_range:
  assumes "spec_safe_box xp"
  shows "0.5 \<le> vx (p2g_fx xp) \<and> vx (p2g_fx xp) \<le> 1.5"
    and "0.5 \<le> vy (p2g_fx xp) \<and> vy (p2g_fx xp) \<le> 1.5"
    and "0.5 \<le> vz (p2g_fx xp) \<and> vz (p2g_fx xp) \<le> 1.5"
  using assms unfolding p2g_fx_sel spec_safe_box_def
  by (blast intro: fx_range_floor spec_safe_coord_nonneg)+

lemma bspline_zero:
  assumes "0.5 \<le> (a::real)" and "a \<le> 1.5"
  shows "0.5 * (1.5 - a) ^ 2 = 0 \<Longrightarrow> a - 1.5 = 0"
    and "0.75 - (a - 1) ^ 2 \<noteq> 0"
    and "0.5 * (a - 0.5) ^ 2 = 0 \<Longrightarrow> a - 0.5 = 0"
proof -
  have "(a - 1 / 2) * (a - 3 / 2) \<le> 0"
    using assms by (intro mult_nonneg_nonpos) simp_all
  moreover have "(a - 1) ^ 2 = (a - 1 / 2) * (a - 3 / 2) + 1 / 4"
    by (simp add: power2_eq_square field_simps)
  ultimately have "0 < 3 / 4 - (a - 1) ^ 2"
    by linarith
  then show "0.75 - (a - 1) ^ 2 \<noteq> 0"
    by simp
qed simp_all

lemma p2g_w_zero:
  assumes "0.5 \<le> vx fx \<and> vx fx \<le> 1.5" and "0.5 \<le> vy fx \<and> vy fx \<le> 1.5"
    and "0.5 \<le> vz fx \<and> vz fx \<le> 1.5" and "i < 3"
  shows "vx (p2g_w fx ! i) = 0 \<Longrightarrow> vx (p2g_dw fx ! i) = 0"
    and "vy (p2g_w fx ! i) = 0 \<Longrightarrow> vy (p2g_dw fx ! i) = 0"
    and "vz (p2g_w fx ! i) = 0 \<Longrightarrow> vz (p2g_dw fx ! i) = 0"
proof -
  from assms(4) consider "i = 0" | "i = 1" | "i = 2"
    unfolding less_3_iff by blast
  then show "vx (p2g_w fx ! i) = 0 \<Longrightarrow> vx (p2g_dw fx ! i) = 0"
    using bspline_zero [of "vx fx"] assms(1) unfolding p2g_w_def p2g_dw_def by cases simp_all
  from assms(4) consider "i = 0" | "i = 1" | "i = 2"
    unfolding less_3_iff by blast
  then show "vy (p2g_w fx ! i) = 0 \<Longrightarrow> vy (p2g_dw fx ! i) = 0"
    using bspline_zero [of "vy fx"] assms(2) unfolding p2g_w_def p2g_dw_def by cases simp_all
  from assms(4) consider "i = 0" | "i = 1" | "i = 2"
    unfolding less_3_iff by blast
  then show "vz (p2g_w fx ! i) = 0 \<Longrightarrow> vz (p2g_dw fx ! i) = 0"
    using bspline_zero [of "vz fx"] assms(3) unfolding p2g_w_def p2g_dw_def by cases simp_all
qed

lemma node_dweight_zero:
  assumes "spec_safe_box xp" and "t \<in> set ndrange333"
    and "node_weight (p2g_w (p2g_fx xp)) t = 0"
  shows "node_dweight (p2g_w (p2g_fx xp)) (p2g_dw (p2g_fx xp)) t = 0"
proof -
  obtain i j k where t: "t = (i, j, k)" by (cases t)
  with assms(2) have lt: "i < 3" "j < 3" "k < 3"
    by (simp_all add: in_ndrange333)
  note z = p2g_w_zero [OF spec_safe_fx_range [OF assms(1)]]
  from assms(3) have "vx (p2g_w (p2g_fx xp) ! i) = 0 \<or> vy (p2g_w (p2g_fx xp) ! j) = 0
      \<or> vz (p2g_w (p2g_fx xp) ! k) = 0"
    by (simp add: t node_weight_def)
  then show ?thesis
    unfolding t node_dweight_def prod.case zero_vec3_def
    using z(1) [OF lt(1)] z(2) [OF lt(2)] z(3) [OF lt(3)] by auto
qed

lemma spec_safe_weight_nonneg:
  assumes "spec_safe_box xp" and "t \<in> set ndrange333"
  shows "0 \<le> node_weight (p2g_w (p2g_fx xp)) t"
proof -
  obtain i j k where t: "t = (i, j, k)" by (cases t)
  with assms(2) have "i < 3" "j < 3" "k < 3"
    by (simp_all add: in_ndrange333)
  then show ?thesis
    unfolding t node_weight_def prod.case
    using p2g_w_nonneg [OF spec_safe_fx_range [OF assms(1)]]
    by (intro mult_nonneg_nonneg) blast+
qed

lemma spec_safe_mass_nonneg:
  assumes "spec_safe_box xp"
  shows "0 \<le> particle_mass_at xp n"
  unfolding particle_mass_at_def
proof (rule sum_list_nonneg)
  fix a
  assume "a \<in> set (map (\<lambda>t. if n = p2g_base xp + ivector t
      then node_weight (p2g_w (p2g_fx xp)) t * p_mass else 0) ndrange333)"
  then obtain t where "t \<in> set ndrange333"
    and "a = (if n = p2g_base xp + ivector t then node_weight (p2g_w (p2g_fx xp)) t * p_mass else 0)"
    by auto
  then show "0 \<le> a"
    using spec_safe_weight_nonneg [OF assms, of t] p_mass_pos by simp
qed

lemma zero_mass_particle:
  assumes "spec_safe_box xp" and "particle_mass_at xp n = 0"
  shows "particle_momentum_at xp vp Cp k n = 0"
proof (cases "n \<in> set (accesses (p2g_base xp))")
  case False
  then show ?thesis
    unfolding particle_momentum_at_def by (rule sum_list_ndrange_none)
next
  case True
  then obtain t where t: "t \<in> set ndrange333" and n: "n = p2g_base xp + ivector t"
    by (auto simp: accesses_def)
  from assms(2) have "node_weight (p2g_w (p2g_fx xp)) t * p_mass = 0"
    unfolding n particle_mass_at_def sum_list_ndrange_single [OF t] .
  with p_mass_pos have w: "node_weight (p2g_w (p2g_fx xp)) t = 0" by simp
  have "particle_momentum_at xp vp Cp k n
      = p2g_momentum vp Cp (p2g_fx xp) (p2g_w (p2g_fx xp)) (p2g_dw (p2g_fx xp)) k t"
    unfolding n particle_momentum_at_def by (rule sum_list_ndrange_single [OF t])
  also have "\<dots> = 0"
    unfolding p2g_momentum_def w node_dweight_zero [OF assms(1) t w] by simp
  finally show ?thesis .
qed

text \<open>
  When every particle lies in the box \<open>0.5 * dx \<le> c < (n_grid - 1.5) * dx\<close>, P2G on the reset
  grid returns, no node gets a negative mass, and a node whose mass is zero has momentum zero:
  the grid update leaves it at the reset value.
\<close>

lemma zero_mass_zero_momentum:
  assumes "\<forall>p<n_particles. spec_safe_box (x s p)" and "in_grid n"
  shows "\<exists>s1. p2g svd (grid_reset s) = Some s1 \<and> 0 \<le> grid_m s1 n
     \<and> (grid_m s1 n = 0 \<longrightarrow> grid_v s1 n = 0 \<and> grid_v (grid_update s1) n = 0)"
proof -
  let ?s1 = "p2g_result svd n_particles (grid_reset s)"
  have "spec_safe_box xp \<Longrightarrow> safe_box xp" for xp
    by (auto simp: spec_safe_box_def safe_box_def spec_safe_coord_def safe_coord_def consts_val)
  with assms(1) have run: "p2g svd (grid_reset s) = Some ?s1"
    by (simp add: p2g_def p2g_range p2g_accesses_iff)
  have m: "grid_m ?s1 n = (\<Sum>p<n_particles. particle_mass_at (x s p) n)"
    using assms(2) by simp
  have nonneg: "0 \<le> grid_m ?s1 n"
    unfolding m by (rule sum_nonneg) (simp add: assms(1) spec_safe_mass_nonneg)
  have "grid_v ?s1 n = 0" if z: "grid_m ?s1 n = 0"
  proof -
    from z have "\<forall>p\<in>{..<n_particles}. particle_mass_at (x s p) n = 0"
      unfolding m by (subst (asm) sum_nonneg_eq_0_iff) (simp_all add: assms(1) spec_safe_mass_nonneg)
    then have "(\<Sum>p<n_particles. particle_momentum_at (x s p) (v s p) (C s p)
            (snd (particle_stress svd (F s p) (Jp s p))) n) = 0"
      by (intro sum.neutral ballI zero_mass_particle) (simp_all add: assms(1))
    then show ?thesis
      using assms(2) by simp
  qed
  then have "grid_m ?s1 n = 0 \<longrightarrow> grid_v ?s1 n = 0 \<and> grid_v (grid_update ?s1) n = 0"
    by (simp add: grid_update_grid_v)
  with run nonneg show ?thesis by blast
qed

subsection \<open>Grid update: velocity, gravity and nodes of zero mass\<close>

lemma cancel_state_sel [simp]:
  "x cancel_state p = (if p = 0 then Vec3 0 0 0
                else if p < 3 then Vec3 (9 / 512) (1 / 256) (1 / 256)
                else Vec3 (3 / 4) (3 / 4) (3 / 4))"
  "v cancel_state p = (if p = 0 then Vec3 1 0 0 else 0)"
  "C cancel_state p = 0" "F cancel_state p = identity_m" "Jp cancel_state p = 1"
  "gravity cancel_state = 0"
  by (simp_all add: cancel_state_def)

lemma sum_first3:
  fixes f :: "nat \<Rightarrow> 'a::comm_monoid_add"
  assumes "3 \<le> N" and "\<And>p. 3 \<le> p \<Longrightarrow> p < N \<Longrightarrow> f p = 0"
  shows "(\<Sum>p<N. f p) = f 0 + f 1 + f 2"
proof -
  have "(\<Sum>p<N. f p) = (\<Sum>p\<in>{0, 1, 2}. f p)"
  proof (rule sum.mono_neutral_right)
    show "{0, 1, 2} \<subseteq> {..<N}" using assms(1) by auto
    show "\<forall>i\<in>{..<N} - {0, 1, 2}. f i = 0"
    proof
      fix i assume "i \<in> {..<N} - {0, 1, 2}"
      then have "3 \<le> i" "i < N" by auto
      then show "f i = 0" by (rule assms(2))
    qed
  qed simp
  then show ?thesis by (simp add: add.assoc)
qed

lemma accesses_ix_ge: "n \<in> set (accesses b) \<Longrightarrow> ix b \<le> ix n"
  by (auto simp: accesses_def ivector_def plus_ivec3_def)

lemma cancel_base:
  "p2g_base (Vec3 0 0 0) = IVec3 0 0 0"
  "p2g_base (Vec3 (9 / 512) (1 / 256) (1 / 256)) = IVec3 1 0 0"
  "p2g_base (Vec3 (3 / 4) (3 / 4) (3 / 4)) = IVec3 95 95 95"
  by (simp_all add: p2g_base_def vcast_int_def cast_int_def consts_val ceiling_def)

lemma cancel_fx:
  "p2g_fx (Vec3 0 0 0) = Vec3 0 0 0"
  "p2g_fx (Vec3 (9 / 512) (1 / 256) (1 / 256)) = Vec3 (5 / 4) (1 / 2) (1 / 2)"
  by (simp_all add: p2g_fx_def cancel_base vcast_float_def consts_val vec_defs)

lemma cancel_mass:
  "particle_mass_at (Vec3 0 0 0) (IVec3 1 1 1) = - (1 / 4194304)"
  "particle_mass_at (Vec3 (9 / 512) (1 / 256) (1 / 256)) (IVec3 1 1 1) = 1 / 8388608"
  "particle_mass_at (Vec3 (3 / 4) (3 / 4) (3 / 4)) (IVec3 1 1 1) = 0"
proof -
  have t1: "(1, 1, 1) \<in> set ndrange333" and t2: "(0, 1, 1) \<in> set ndrange333"
    by (simp_all add: in_ndrange333)
  have n1: "IVec3 1 1 1 = p2g_base (Vec3 0 0 0) + ivector (1, 1, 1)"
    by (simp add: cancel_base ivector_def plus_ivec3_def)
  have n2: "IVec3 1 1 1 = p2g_base (Vec3 (9 / 512) (1 / 256) (1 / 256)) + ivector (0, 1, 1)"
    by (simp add: cancel_base ivector_def plus_ivec3_def)
  show "particle_mass_at (Vec3 0 0 0) (IVec3 1 1 1) = - (1 / 4194304)"
    unfolding n1 particle_mass_own [OF t1] cancel_fx
    by (simp add: node_weight_def p2g_w_def consts_val power2_eq_square)
  show "particle_mass_at (Vec3 (9 / 512) (1 / 256) (1 / 256)) (IVec3 1 1 1) = 1 / 8388608"
    unfolding n2 particle_mass_own [OF t2] cancel_fx
    by (simp add: node_weight_def p2g_w_def consts_val power2_eq_square)
  have "IVec3 1 1 1 \<notin> set (accesses (p2g_base (Vec3 (3 / 4) (3 / 4) (3 / 4))))"
    using accesses_ix_ge [of "IVec3 1 1 1" "IVec3 95 95 95"] by (auto simp: cancel_base)
  then show "particle_mass_at (Vec3 (3 / 4) (3 / 4) (3 / 4)) (IVec3 1 1 1) = 0"
    unfolding particle_mass_at_def by (rule sum_list_ndrange_none)
qed

lemma cancel_safe: "\<forall>p<n_particles. accesses_in_grid (p2g_base (x cancel_state p))"
  by (simp add: cancel_base accesses_in_grid_iff consts_val)

lemma cancel_p2g:
  "p2g svd_id (grid_reset cancel_state) = Some (p2g_result svd_id n_particles (grid_reset cancel_state))"
  using cancel_safe by (simp add: p2g_def p2g_range)

lemma cancel_grid_m:
  "grid_m (p2g_result svd_id n_particles (grid_reset cancel_state)) (IVec3 1 1 1) = 0"
proof -
  have g: "in_grid (IVec3 1 1 1)" by (simp add: in_grid_def consts_val)
  have "(\<Sum>p<n_particles. particle_mass_at (x cancel_state p) (IVec3 1 1 1))
      = particle_mass_at (x cancel_state 0) (IVec3 1 1 1)
        + particle_mass_at (x cancel_state 1) (IVec3 1 1 1)
        + particle_mass_at (x cancel_state 2) (IVec3 1 1 1)"
    by (rule sum_first3) (simp_all add: consts_val cancel_mass)
  also have "\<dots> = 0"
    by (simp add: cancel_mass)
  finally show ?thesis
    using g by simp
qed

lemma cancel_grid_v:
  "grid_v (p2g_result svd_id n_particles (grid_reset cancel_state)) (IVec3 1 1 1)
     = Vec3 (- (1 / 4194304)) 0 0"
proof -
  have g: "in_grid (IVec3 1 1 1)" by (simp add: in_grid_def consts_val)
  let ?f = "\<lambda>p. particle_momentum_at (x cancel_state p) (v cancel_state p) (C cancel_state p)
      (snd (particle_stress svd_id (F cancel_state p) (Jp cancel_state p))) (IVec3 1 1 1)"
  have f: "?f p = particle_mass_at (x cancel_state p) (IVec3 1 1 1) *\<^sub>R v cancel_state p" for p
    unfolding cancel_state_sel(3-5) stress_id snd_conv by (rule particle_momentum_rigid)
  have z: "?f p = 0" if "3 \<le> p" for p
    unfolding f using that by (simp add: cancel_mass)
  have "(\<Sum>p<n_particles. ?f p) = ?f 0 + ?f 1 + ?f 2"
  proof (rule sum_first3)
    show "3 \<le> n_particles" by (simp add: consts_val)
  qed (rule z)
  also have "\<dots> = Vec3 (- (1 / 4194304)) 0 0"
    unfolding f by (simp add: cancel_mass vec_defs)
  finally show ?thesis
    using g by simp
qed

text \<open>
  Counterexample for claim C3 as stated: in \<open>cancel_state\<close> all accesses are inside the grid,
  node \<open>(1, 1, 1)\<close> has mass 0 after P2G (the weight \<open>-1/64\<close> of particle 0 cancels the
  weights \<open>1/128\<close> of particles 1 and 2), and its vector is \<open>(-1/4194304, 0, 0)\<close>, not the
  reset value, after P2G and after the grid update.
\<close>

theorem zero_mass_counterexample:
  "p2g svd_id (grid_reset cancel_state) \<noteq> None
   \<and> in_grid (IVec3 1 1 1)
   \<and> grid_m (the (p2g svd_id (grid_reset cancel_state))) (IVec3 1 1 1) = 0
   \<and> grid_v (the (p2g svd_id (grid_reset cancel_state))) (IVec3 1 1 1) = Vec3 (- (1 / 4194304)) 0 0
   \<and> grid_v (grid_update (the (p2g svd_id (grid_reset cancel_state)))) (IVec3 1 1 1)
       = Vec3 (- (1 / 4194304)) 0 0"
  unfolding cancel_p2g option.sel grid_update_grid_v cancel_grid_m cancel_grid_v
  by (simp add: in_grid_def consts_val)

text \<open>
  Claim C3, amended: in the grid update, a node of positive mass gets the momentum divided by
  the mass, plus \<open>dt * gravity * 9.8\<close> (after which the wall checks follow); a node of zero
  mass keeps its vector as it is, and no mass is changed.  When every particle lies in the
  box \<open>0.5 * dx \<le> c < (n_grid - 1.5) * dx\<close> on each axis, P2G on the reset grid returns, and
  a node of zero mass then holds the reset value zero before and after the grid update.
\<close>

theorem grid_update_velocity:
  assumes "in_grid n"
  shows "(0 < grid_m s n \<longrightarrow>
            grid_v (grid_update s) n =
              wall n (Vec3 (vx (grid_v s n) / grid_m s n + dt * vx (gravity s) * 9.8)
                           (vy (grid_v s n) / grid_m s n + dt * vy (gravity s) * 9.8)
                           (vz (grid_v s n) / grid_m s n + dt * vz (gravity s) * 9.8)))
       \<and> (grid_m s n = 0 \<longrightarrow> grid_v (grid_update s) n = grid_v s n)
       \<and> grid_m (grid_update s) n = grid_m s n
       \<and> ((\<forall>p<n_particles. spec_safe_box (x s0 p)) \<longrightarrow>
            (\<exists>s1. p2g svd (grid_reset s0) = Some s1
               \<and> (grid_m s1 n = 0 \<longrightarrow> grid_v s1 n = 0 \<and> grid_v (grid_update s1) n = 0)))"
proof (intro conjI impI)
  assume "\<forall>p<n_particles. spec_safe_box (x s0 p)"
  from zero_mass_zero_momentum [OF this assms, of svd]
  show "\<exists>s1. p2g svd (grid_reset s0) = Some s1
     \<and> (grid_m s1 n = 0 \<longrightarrow> grid_v s1 n = 0 \<and> grid_v (grid_update s1) n = 0)"
    by blast
qed (use assms in \<open>simp_all add: grid_update_grid_v node_velocity_eq\<close>)

text \<open>Claim C3 at node \<open>(5, 5, 5)\<close>: once with mass 2 and once with mass 0 in the grid
  update, and after P2G of 9000 particles at \<open>(1/2, 1/2, 1/2)\<close>, which leave it at mass 0.\<close>

theorem grid_update_velocity_witness:
  "in_grid (IVec3 5 5 5)
   \<and> grid_v (grid_update (uniform_state 0 0 (Vec3 2 0 4) 2 (Vec3 0 (- 1) 0))) (IVec3 5 5 5)
       = Vec3 1 (- (49 / 50000)) 2
   \<and> grid_v (grid_update (uniform_state 0 0 (Vec3 2 0 4) 0 (Vec3 0 (- 1) 0))) (IVec3 5 5 5)
       = Vec3 2 0 4
   \<and> (\<exists>s1. p2g svd_id (grid_reset (uniform_state (Vec3 (1/2) (1/2) (1/2)) (Vec3 1 2 3) 0 0 0)) = Some s1
          \<and> grid_m s1 (IVec3 5 5 5) = 0 \<and> grid_v (grid_update s1) (IVec3 5 5 5) = 0)"
proof -
  let ?s0 = "uniform_state (Vec3 (1/2) (1/2) (1/2)) (Vec3 1 2 3) 0 0 0"
  have g: "in_grid (IVec3 5 5 5)" by (simp add: in_grid_def consts_val)
  have box: "\<forall>p<n_particles. spec_safe_box (x ?s0 p)"
    by (simp add: spec_safe_box_def spec_safe_coord_def consts_val)
  note t1 = grid_update_velocity [OF g, of "uniform_state 0 0 (Vec3 2 0 4) 2 (Vec3 0 (- 1) 0)" ?s0 svd_id]
  note t2 = grid_update_velocity [OF g, of "uniform_state 0 0 (Vec3 2 0 4) 0 (Vec3 0 (- 1) 0)" ?s0 svd_id]
  have 1: "grid_v (grid_update (uniform_state 0 0 (Vec3 2 0 4) 2 (Vec3 0 (- 1) 0))) (IVec3 5 5 5)
       = Vec3 1 (- (49 / 50000)) 2"
    using t1 by (simp add: consts_val wall_def Let_def)
  have 2: "grid_v (grid_update (uniform_state 0 0 (Vec3 2 0 4) 0 (Vec3 0 (- 1) 0))) (IVec3 5 5 5)
       = Vec3 2 0 4"
    using t2 by simp
  from t1 box obtain s1 where s1: "p2g svd_id (grid_reset ?s0) = Some s1"
    and z: "grid_m s1 (IVec3 5 5 5) = 0 \<longrightarrow> grid_v (grid_update s1) (IVec3 5 5 5) = 0"
    by blast
  have b: "p2g_base (Vec3 (1/2) (1/2) (1/2)) = IVec3 63 63 63"
    by (simp add: p2g_base_def vcast_int_def cast_int_def consts_val)
  have "IVec3 5 5 5 \<notin> set (accesses (p2g_base (Vec3 (1/2) (1/2) (1/2))))"
    using accesses_ix_ge [of "IVec3 5 5 5" "IVec3 63 63 63"] by (auto simp: b)
  then have m0: "particle_mass_at (Vec3 (1/2) (1/2) (1/2)) (IVec3 5 5 5) = 0"
    unfolding particle_mass_at_def by (rule sum_list_ndrange_none)
  have "p2g svd_id (grid_reset ?s0) = Some (p2g_result svd_id n_particles (grid_reset ?s0))"
    using s1 by (simp add: p2g_def p2g_range split: if_splits)
  with s1 have "s1 = p2g_result svd_id n_particles (grid_reset ?s0)" by simp
  then have "grid_m s1 (IVec3 5 5 5) = 0"
    using g by (simp add: m0)
  with z s1 1 2 g show ?thesis by blast
qed

end
